theory Spec2Isabelle
  imports Main
begin

section \<open>JavaScript values\<close>

text \<open>
  The server is TypeScript running on Node. Tool arguments arrive as parsed JSON, remote
  responses are parsed JSON that no code validates, and request bodies are built as object
  literals and handed to \<open>JSON.stringify\<close>. All of these are values of one type.

  \<^item> Strings are \<open>string\<close>: a sequence of 8-bit characters stands for the sequence of code
    units of the JavaScript string (code units above 255 are outside the model).
  \<^item> A number is finite and is carried as the text \<open>JSON.stringify\<close> renders it with
    (\<open>''0''\<close>, \<open>''50''\<close>); the code modelled here performs no arithmetic on numbers.
  \<^item> An object is the list of its own properties in insertion order. Keys of an object are
    distinct. The engine's reordering of array-index keys (\<open>"0"\<close>, \<open>"17"\<close>) before the
    other keys is not modelled.
  \<^item> \<open>JFunction\<close> is a built-in method read as a property (\<open>[].values\<close>); it only
    matters because it is neither an array nor \<open>undefined\<close>.
\<close>

datatype jsval =
    JUndefined
  | JNull
  | JBool bool
  | JNum string
  | JStr string
  | JArr "jsval list"
  | JObj "(string \<times> jsval) list"
  | JFunction

type_synonym 'v obj = "(string \<times> 'v) list"

text \<open>Property read \<open>o[k]\<close> on the own properties, \<open>undefined\<close> for a missing key.\<close>

fun obj_get :: "jsval obj \<Rightarrow> string \<Rightarrow> jsval" where
  "obj_get [] k = JUndefined"
| "obj_get ((k', v) # ps) k = (if k' = k then v else obj_get ps k)"

text \<open>
  Property write \<open>o[k] = v\<close>: an existing key keeps its position and takes the new value,
  a new key is appended.
\<close>

fun obj_set :: "'v obj \<Rightarrow> string \<Rightarrow> 'v \<Rightarrow> 'v obj" where
  "obj_set [] k v = [(k, v)]"
| "obj_set ((k', v') # ps) k v = (if k' = k then (k, v) # ps else (k', v') # obj_set ps k v)"

text \<open>
  \<open>Object.assign(target, source)\<close>: every own property of the source is written to the
  target, in the source's order. Writing the key \<open>__proto__\<close> runs the prototype setter and
  creates no own property, so it leaves the own properties as they are.
\<close>

fun Object_assign :: "jsval obj \<Rightarrow> jsval obj \<Rightarrow> jsval obj" where
  "Object_assign target [] = target"
| "Object_assign target ((k, v) # src) =
     Object_assign (if k = ''__proto__'' then target else obj_set target k v) src"

text \<open>Truthiness (\<open>ToBoolean\<close>). The number zero is rendered \<open>0\<close>.\<close>

fun truthy :: "jsval \<Rightarrow> bool" where
  "truthy JUndefined = False"
| "truthy JNull = False"
| "truthy (JBool b) = b"
| "truthy (JNum t) = (t \<noteq> ''0'')"
| "truthy (JStr s) = (s \<noteq> [])"
| "truthy (JArr xs) = True"
| "truthy (JObj ps) = True"
| "truthy JFunction = True"

text \<open>
  An optional string parameter (\<open>string | undefined\<close>) in a condition: \<open>undefined\<close> and the
  empty string are falsy.
\<close>

fun truthy_str :: "string option \<Rightarrow> bool" where
  "truthy_str None = False"
| "truthy_str (Some s) = (s \<noteq> [])"

text \<open>\<open>Array.prototype.join\<close> on strings.\<close>

fun join :: "string \<Rightarrow> string list \<Rightarrow> string" where
  "join sep [] = []"
| "join sep [x] = x"
| "join sep (x # y # ys) = x @ sep @ join sep (y # ys)"

subsection \<open>\<open>JSON.stringify\<close>\<close>

definition dquote :: char where
  "dquote = CHR 0x22"

definition backslash :: char where
  "backslash = CHR 0x5C"

definition newline :: char where
  "newline = CHR 0x0A"

definition hexdigit :: "nat \<Rightarrow> char" where
  "hexdigit n = ''0123456789abcdef'' ! (n mod 16)"

text \<open>
  \<open>QuoteJSONString\<close>: the two-character escapes of the standard's table, \<open>\u00xx\<close> for the
  other control characters, every other character as it is.
\<close>

definition quote_char :: "char \<Rightarrow> string" where
  "quote_char c =
     (if c = CHR 0x08 then [backslash, CHR ''b'']
      else if c = CHR 0x09 then [backslash, CHR ''t'']
      else if c = CHR 0x0A then [backslash, CHR ''n'']
      else if c = CHR 0x0C then [backslash, CHR ''f'']
      else if c = CHR 0x0D then [backslash, CHR ''r'']
      else if c = dquote then [backslash, dquote]
      else if c = backslash then [backslash, backslash]
      else if (of_char c :: nat) < 32 then
        [backslash, CHR ''u'', CHR ''0'', CHR ''0'',
         hexdigit (of_char c div 16), hexdigit (of_char c mod 16)]
      else [c])"

definition QuoteJSONString :: "string \<Rightarrow> string" where
  "QuoteJSONString s = dquote # concat (map quote_char s) @ [dquote]"

text \<open>
  \<open>SerializeJSONProperty\<close> with the gap (the indentation unit, empty for the one-argument
  call) and the current indentation. \<open>undefined\<close> and functions have no serialization
  (\<open>None\<close>): as a property they are left out, as an array element they become \<open>null\<close>.
\<close>

fun SerializeJSONProperty :: "string \<Rightarrow> string \<Rightarrow> jsval \<Rightarrow> string option" where
  "SerializeJSONProperty gap indent JUndefined = None"
| "SerializeJSONProperty gap indent JFunction = None"
| "SerializeJSONProperty gap indent JNull = Some ''null''"
| "SerializeJSONProperty gap indent (JBool b) = Some (if b then ''true'' else ''false'')"
| "SerializeJSONProperty gap indent (JNum t) = Some t"
| "SerializeJSONProperty gap indent (JStr s) = Some (QuoteJSONString s)"
| "SerializeJSONProperty gap indent (JArr xs) =
     (let stepback = indent;
          indent = indent @ gap;
          partial = map (\<lambda>x. case SerializeJSONProperty gap indent x of
                                 None \<Rightarrow> ''null'' | Some s \<Rightarrow> s) xs
      in Some (if partial = [] then ''[]''
               else if gap = [] then ''['' @ join '','' partial @ '']''
               else ''['' @ [newline] @ indent @ join ('','' @ [newline] @ indent) partial
                    @ [newline] @ stepback @ '']''))"
| "SerializeJSONProperty gap indent (JObj ps) =
     (let stepback = indent;
          indent = indent @ gap;
          partial = concat (map (\<lambda>p. case SerializeJSONProperty gap indent (snd p) of
                                   None \<Rightarrow> []
                                 | Some s \<Rightarrow>
                                     [QuoteJSONString (fst p) @ '':''
                                      @ (if gap = [] then [] else '' '') @ s]) ps)
      in Some (if partial = [] then ''{}''
               else if gap = [] then ''{'' @ join '','' partial @ ''}''
               else ''{'' @ [newline] @ indent @ join ('','' @ [newline] @ indent) partial
                    @ [newline] @ stepback @ ''}''))"

text \<open>\<open>JSON.stringify(value)\<close> and \<open>JSON.stringify(value, null, 2)\<close>.\<close>

definition JSON_stringify :: "jsval \<Rightarrow> string option" where
  "JSON_stringify v = SerializeJSONProperty [] [] v"

definition JSON_stringify_2 :: "jsval \<Rightarrow> string option" where
  "JSON_stringify_2 v = SerializeJSONProperty ''  '' [] v"

subsection \<open>Strings\<close>

definition digit :: "nat \<Rightarrow> char" where
  "digit n = ''0123456789'' ! (n mod 10)"

text \<open>The decimal text of a natural number, as a template literal renders it.\<close>

fun show_nat :: "nat \<Rightarrow> string" where
  "show_nat n = (if n < 10 then [digit n] else show_nat (n div 10) @ [digit n])"

declare show_nat.simps [simp del]

text \<open>
  \<open>String.prototype.toLowerCase\<close> on the code units of the model: the ASCII capitals and
  the Latin-1 capitals (all of \<open>0xC0\<close> to \<open>0xDE\<close> but the multiplication sign) move up
  by 32.
\<close>

definition toLowerCase_char :: "char \<Rightarrow> char" where
  "toLowerCase_char c =
     (let n = (of_char c :: nat)
      in if (65 \<le> n \<and> n \<le> 90) \<or> (192 \<le> n \<and> n \<le> 222 \<and> n \<noteq> 215)
         then char_of (n + 32) else c)"

definition toLowerCase :: "string \<Rightarrow> string" where
  "toLowerCase s = map toLowerCase_char s"

definition HEXDIGIT :: "nat \<Rightarrow> char" where
  "HEXDIGIT n = ''0123456789ABCDEF'' ! (n mod 16)"

definition percent :: "nat \<Rightarrow> string" where
  "percent byte = [CHR ''%'', HEXDIGIT (byte div 16), HEXDIGIT byte]"

text \<open>
  \<open>encodeURIComponent\<close>: letters, digits and \<open>- _ . ! ~ * ' ( )\<close> stay, every other code
  unit is written as the percent-escaped bytes of its UTF-8 encoding (one byte below 128,
  two bytes from 128 to 255).
\<close>

definition uri_unreserved :: "char \<Rightarrow> bool" where
  "uri_unreserved c =
     (c \<in> set ''ABCDEFGHIJKLMNOPQRSTUVWXYZabcdefghijklmnopqrstuvwxyz0123456789-_.!~*()''
      \<or> c = CHR 0x27)"

definition encode_char :: "char \<Rightarrow> string" where
  "encode_char c =
     (let n = (of_char c :: nat)
      in if uri_unreserved c then [c]
         else if n < 128 then percent n
         else percent (192 + n div 64) @ percent (128 + n mod 64))"

definition encodeURIComponent :: "string \<Rightarrow> string" where
  "encodeURIComponent s = concat (map encode_char s)"

section \<open>Errors and effects\<close>

text \<open>
  What the client and the language raise: all are instances of \<open>Error\<close> and carry a message.
  The wording of a \<open>TypeError\<close> raised by the engine is V8's.
\<close>

datatype js_error = Error string | TypeError string | SyntaxError string

fun message :: "js_error \<Rightarrow> string" where
  "message (Error m) = m"
| "message (TypeError m) = m"
| "message (SyntaxError m) = m"

text \<open>
  The protocol's error codes and its error class, with the message the code gives to the
  constructor.
\<close>

datatype ErrorCode = InvalidRequest | MethodNotFound | InvalidParams | InternalError

datatype McpError = McpError ErrorCode string

text \<open>
  What the body of a request handler can raise: a \<open>ZodError\<close> with the messages of its
  issues, an \<open>McpError\<close>, or any other error.
\<close>

datatype exn = ZodError "string list" | Mcp McpError | Thrown js_error

text \<open>
  One call of \<open>fetch(url, init)\<close>, with the method, headers and body of \<open>init\<close> (no method
  is a GET, no body is \<open>None\<close>), and what it settles to. A response is observed through
  its status, through \<open>text()\<close> and through \<open>json()\<close>, which yields the parsed body or
  rejects with a \<open>SyntaxError\<close>.
\<close>

datatype fetch_call =
  fetch_call (url: string) (http_method: "string option") (headers: "string obj")
    (body: "string option")

datatype Response =
  Response (status: nat) (response_text: string) (response_json: "string + jsval")

definition ok :: "Response \<Rightarrow> bool" where
  "ok r = (200 \<le> status r \<and> status r \<le> 299)"

datatype fetch_result = Rejected string | Resolved Response

text \<open>
  The remote server is a parameter: it answers the latest call of the calls made so far.
  An action takes the server and the calls made so far, and returns its outcome (\<open>Inl\<close>
  what it throws) with the calls made by then. A call of the Remote Client that reaches
  the network adds to that list, and nothing else does.
\<close>

type_synonym remote = "fetch_call list \<Rightarrow> fetch_result"

type_synonym ('e, 'a) io = "remote \<Rightarrow> fetch_call list \<Rightarrow> ('e + 'a) \<times> fetch_call list"

definition return :: "'a \<Rightarrow> ('e, 'a) io" where
  "return a = (\<lambda>remote calls. (Inr a, calls))"

definition throw :: "'e \<Rightarrow> ('e, 'a) io" where
  "throw e = (\<lambda>remote calls. (Inl e, calls))"

definition settle :: "'e + 'a \<Rightarrow> ('e, 'a) io" where
  "settle r = (\<lambda>remote calls. (r, calls))"

definition bind :: "('e, 'a) io \<Rightarrow> ('a \<Rightarrow> ('e, 'b) io) \<Rightarrow> ('e, 'b) io" where
  "bind m f = (\<lambda>remote calls.
     case m remote calls of
       (Inl e, calls') \<Rightarrow> (Inl e, calls')
     | (Inr a, calls') \<Rightarrow> f a remote calls')"

text \<open>A handler awaiting a client method: what the client throws is thrown on.\<close>

definition await :: "(js_error, 'a) io \<Rightarrow> (exn, 'a) io" where
  "await m = (\<lambda>remote calls.
     case m remote calls of
       (Inl e, calls') \<Rightarrow> (Inl (Thrown e), calls')
     | (Inr a, calls') \<Rightarrow> (Inr a, calls'))"

section \<open>Reading unvalidated values\<close>

text \<open>
  The client asserts a TypeScript type on every response and checks nothing, so the code
  that reads a response runs on whatever JSON the server sent. The operations below are
  the ones that code uses, with the failure each has on a value of the wrong shape.
\<close>

definition squote :: char where
  "squote = CHR 0x27"

definition cannot_read :: "string \<Rightarrow> string \<Rightarrow> js_error" where
  "cannot_read what k =
     TypeError (''Cannot read properties of '' @ what @ '' (reading '' @ [squote] @ k @ [squote] @ '')'')"

definition not_a_function :: "string \<Rightarrow> js_error" where
  "not_a_function m = TypeError (m @ '' is not a function'')"

text \<open>
  Property read \<open>v.k\<close>, for the property names the code reads (\<open>values\<close>, \<open>name\<close>, \<open>id\<close>,
  \<open>key\<close>, \<open>displayName\<close>, \<open>length\<close>, \<open>fieldId\<close>, \<open>required\<close>, \<open>allowedValues\<close>,
  \<open>issueTypes\<close>): it throws on \<open>undefined\<close> and \<open>null\<close>, reads an own property
  of an object, and on the other values finds only what the prototype has under these
  names (\<open>length\<close> of arrays and strings, the method \<open>values\<close> of arrays, \<open>name\<close> and
  \<open>length\<close> of that method).
\<close>

fun js_prop :: "jsval \<Rightarrow> string \<Rightarrow> js_error + jsval" where
  "js_prop JUndefined k = Inl (cannot_read ''undefined'' k)"
| "js_prop JNull k = Inl (cannot_read ''null'' k)"
| "js_prop (JObj ps) k = Inr (obj_get ps k)"
| "js_prop (JArr xs) k =
     Inr (if k = ''length'' then JNum (show_nat (length xs))
          else if k = ''values'' then JFunction else JUndefined)"
| "js_prop (JStr s) k = Inr (if k = ''length'' then JNum (show_nat (length s)) else JUndefined)"
| "js_prop JFunction k =
     Inr (if k = ''name'' then JStr ''values'' else if k = ''length'' then JNum ''0''
          else JUndefined)"
| "js_prop (JBool b) k = Inr JUndefined"
| "js_prop (JNum t) k = Inr JUndefined"

text \<open>
  The receiver of an array method call \<open>v.m(...)\<close> with \<open>m\<close> one of \<open>filter\<close>, \<open>map\<close>,
  \<open>find\<close>: only an array has it (a property of that name in a JSON object is data, not a
  function).
\<close>

fun js_array :: "jsval \<Rightarrow> string \<Rightarrow> js_error + jsval list" where
  "js_array (JArr xs) m = Inr xs"
| "js_array JUndefined m = Inl (cannot_read ''undefined'' m)"
| "js_array JNull m = Inl (cannot_read ''null'' m)"
| "js_array v m = Inl (not_a_function m)"

text \<open>\<open>v.toLowerCase()\<close>: only a string has the method.\<close>

fun js_toLowerCase :: "jsval \<Rightarrow> js_error + string" where
  "js_toLowerCase (JStr s) = Inr (toLowerCase s)"
| "js_toLowerCase JUndefined = Inl (cannot_read ''undefined'' ''toLowerCase'')"
| "js_toLowerCase JNull = Inl (cannot_read ''null'' ''toLowerCase'')"
| "js_toLowerCase v = Inl (not_a_function ''toLowerCase'')"

text \<open>
  \<open>ToString\<close>, as a template literal applies it. An array joins its elements with commas,
  \<open>null\<close> and \<open>undefined\<close> elements as the empty string. An object is \<open>[object Object]\<close>,
  unless it has an own property \<open>toString\<close>: that is data and cannot be called, the
  inherited \<open>valueOf\<close> returns the object itself, and the conversion throws.
\<close>

fun collect :: "('e + 'a) list \<Rightarrow> 'e + 'a list" where
  "collect [] = Inr []"
| "collect (Inl e # rs) = Inl e"
| "collect (Inr a # rs) = (case collect rs of Inl e \<Rightarrow> Inl e | Inr as \<Rightarrow> Inr (a # as))"

fun js_ToString :: "jsval \<Rightarrow> js_error + string" where
  "js_ToString JUndefined = Inr ''undefined''"
| "js_ToString JNull = Inr ''null''"
| "js_ToString (JBool b) = Inr (if b then ''true'' else ''false'')"
| "js_ToString (JNum t) = Inr t"
| "js_ToString (JStr s) = Inr s"
| "js_ToString (JArr xs) =
     (case collect (map (\<lambda>x. if x = JUndefined \<or> x = JNull then Inr [] else js_ToString x) xs) of
        Inl e \<Rightarrow> Inl e
      | Inr ss \<Rightarrow> Inr (join '','' ss))"
| "js_ToString (JObj ps) =
     (if ''toString'' \<in> fst ` set ps
      then Inl (TypeError ''Cannot convert object to primitive value'')
      else Inr ''[object Object]'')"
| "js_ToString JFunction = Inr ''function values() { [native code] }''"

text \<open>
  \<open>xs.filter(p)\<close> with a predicate that can throw: the elements are tested in order and
  the first throw ends the call.
\<close>

fun filter_throwing :: "('a \<Rightarrow> 'e + bool) \<Rightarrow> 'a list \<Rightarrow> 'e + 'a list" where
  "filter_throwing p [] = Inr []"
| "filter_throwing p (x # xs) =
     (case p x of
        Inl e \<Rightarrow> Inl e
      | Inr b \<Rightarrow> (case filter_throwing p xs of
                   Inl e \<Rightarrow> Inl e
                 | Inr ys \<Rightarrow> Inr (if b then x # ys else ys)))"

text \<open>\<open>r >>= f\<close> on outcomes without effects.\<close>

fun and_then :: "'e + 'a \<Rightarrow> ('a \<Rightarrow> 'e + 'b) \<Rightarrow> 'e + 'b" where
  "and_then (Inl e) f = Inl e"
| "and_then (Inr a) f = f a"

section \<open>The Remote Client\<close>

datatype JiraConfig = JiraConfig (baseUrl: string) (pat: string)

datatype JiraClient = JiraClient (this_baseUrl: string) (this_headers: "string obj")

text \<open>
  \<open>s.replace(/\/$/, "")\<close>: the pattern has no \<open>g\<close> and no \<open>m\<close> flag, so it matches at most
  once, a slash that is the last character of the string.
\<close>

definition replace_trailing_slash :: "string \<Rightarrow> string" where
  "replace_trailing_slash s = (if s \<noteq> [] \<and> last s = CHR ''/'' then butlast s else s)"

definition new_JiraClient :: "JiraConfig \<Rightarrow> JiraClient" where
  "new_JiraClient config =
     JiraClient
       (replace_trailing_slash (baseUrl config))
       [(''Authorization'', ''Bearer '' @ pat config),
        (''Content-Type'', ''application/json''),
        (''Accept'', ''application/json'')]"

text \<open>
  The \<open>RequestInit\<close> a method passes to \<open>request\<close>; no method of the client passes headers,
  so \<open>init_headers\<close> is empty at every call in the source.
\<close>

datatype RequestInit =
  RequestInit (init_method: "string option") (init_headers: "string obj")
    (init_body: "string option")

definition no_init :: RequestInit where
  "no_init = RequestInit None [] None"

text \<open>Object spread \<open>{...a, ...b}\<close>: the properties of \<open>b\<close> written over those of \<open>a\<close>.\<close>

fun spread :: "'v obj \<Rightarrow> 'v obj \<Rightarrow> 'v obj" where
  "spread a [] = a"
| "spread a ((k, v) # b) = spread (obj_set a k v) b"

definition request :: "JiraClient \<Rightarrow> string \<Rightarrow> RequestInit \<Rightarrow> (js_error, jsval) io" where
  "request this endpoint options = (\<lambda>remote calls.
     let url = this_baseUrl this @ ''/rest/api/2'' @ endpoint;
         call = fetch_call url (init_method options)
                  (spread (this_headers this) (init_headers options)) (init_body options);
         calls = calls @ [call]
     in case remote calls of
          Rejected m \<Rightarrow> (Inl (TypeError m), calls)
        | Resolved response \<Rightarrow>
            if \<not> ok response then
              (Inl (Error (''Jira API error ('' @ show_nat (status response) @ ''): ''
                           @ response_text response)), calls)
            else if status response = 204 then (Inr (JObj []), calls)
            else (case response_json response of
                    Inl m \<Rightarrow> (Inl (SyntaxError m), calls)
                  | Inr v \<Rightarrow> (Inr v, calls)))"

text \<open>\<open>request(endpoint)\<close> with the default \<open>options = {}\<close>.\<close>

definition request_get :: "JiraClient \<Rightarrow> string \<Rightarrow> (js_error, jsval) io" where
  "request_get this endpoint = request this endpoint no_init"

text \<open>\<open>await this.request<void>(...)\<close> in a method that returns nothing.\<close>

definition void :: "(js_error, jsval) io \<Rightarrow> (js_error, unit) io" where
  "void m = bind m (\<lambda>_. return ())"

definition with_body :: "string \<Rightarrow> string option \<Rightarrow> RequestInit" where
  "with_body m b = RequestInit (Some m) [] b"

definition with_method :: "string \<Rightarrow> RequestInit" where
  "with_method m = RequestInit (Some m) [] None"

subsection \<open>Issue operations\<close>

definition getIssue :: "JiraClient \<Rightarrow> string \<Rightarrow> string list option \<Rightarrow> (js_error, jsval) io" where
  "getIssue this issueKey expand =
     (let params = (case expand of Some e \<Rightarrow> ''?expand='' @ join '','' e | None \<Rightarrow> [])
      in request_get this (''/issue/'' @ issueKey @ params))"

definition createIssue :: "JiraClient \<Rightarrow> jsval \<Rightarrow> (js_error, jsval) io" where
  "createIssue this data = request this ''/issue'' (with_body ''POST'' (JSON_stringify data))"

definition updateIssue :: "JiraClient \<Rightarrow> string \<Rightarrow> jsval \<Rightarrow> (js_error, unit) io" where
  "updateIssue this issueKey data =
     void (request this (''/issue/'' @ issueKey) (with_body ''PUT'' (JSON_stringify data)))"

definition deleteIssue :: "JiraClient \<Rightarrow> string \<Rightarrow> (js_error, unit) io" where
  "deleteIssue this issueKey = void (request this (''/issue/'' @ issueKey) (with_method ''DELETE''))"

text \<open>\<open>username: string | null\<close> is \<open>None\<close> for \<open>null\<close>.\<close>

definition assignIssue :: "JiraClient \<Rightarrow> string \<Rightarrow> string option \<Rightarrow> (js_error, unit) io" where
  "assignIssue this issueKey username =
     void (request this (''/issue/'' @ issueKey @ ''/assignee'')
       (with_body ''PUT''
          (JSON_stringify
             (JObj [(''name'', case username of None \<Rightarrow> JNull | Some u \<Rightarrow> JStr u)]))))"

subsection \<open>Search\<close>

text \<open>
  The numbers are passed on as they came; an argument left \<open>undefined\<close> (\<open>None\<close>) takes the
  parameter's default. An array is truthy, so only an absent field list takes the fixed
  one.
\<close>

definition searchIssues ::
  "JiraClient \<Rightarrow> string \<Rightarrow> string option \<Rightarrow> string option \<Rightarrow> string list option
     \<Rightarrow> (js_error, jsval) io" where
  "searchIssues this jql startAt maxResults fields =
     request this ''/search''
       (with_body ''POST''
          (JSON_stringify
             (JObj [(''jql'', JStr jql),
                    (''startAt'', JNum (case startAt of None \<Rightarrow> ''0'' | Some n \<Rightarrow> n)),
                    (''maxResults'', JNum (case maxResults of None \<Rightarrow> ''50'' | Some n \<Rightarrow> n)),
                    (''fields'', JArr (map JStr
                       (case fields of
                          Some fs \<Rightarrow> fs
                        | None \<Rightarrow> [''summary'', ''status'', ''assignee'', ''reporter'',
                                    ''priority'', ''created'', ''updated'', ''issuetype'',
                                    ''project'', ''description'', ''labels'',
                                    ''components''])))])))"

subsection \<open>Projects, comments, transitions, users, watchers, links\<close>

definition getProjects :: "JiraClient \<Rightarrow> (js_error, jsval) io" where
  "getProjects this = request_get this ''/project''"

definition getProject :: "JiraClient \<Rightarrow> string \<Rightarrow> (js_error, jsval) io" where
  "getProject this projectKey = request_get this (''/project/'' @ projectKey)"

definition getComments :: "JiraClient \<Rightarrow> string \<Rightarrow> (js_error, jsval) io" where
  "getComments this issueKey = request_get this (''/issue/'' @ issueKey @ ''/comment'')"

definition addComment :: "JiraClient \<Rightarrow> string \<Rightarrow> string \<Rightarrow> (js_error, jsval) io" where
  "addComment this issueKey body_text =
     request this (''/issue/'' @ issueKey @ ''/comment'')
       (with_body ''POST'' (JSON_stringify (JObj [(''body'', JStr body_text)])))"

definition updateComment ::
  "JiraClient \<Rightarrow> string \<Rightarrow> string \<Rightarrow> string \<Rightarrow> (js_error, jsval) io" where
  "updateComment this issueKey commentId body_text =
     request this (''/issue/'' @ issueKey @ ''/comment/'' @ commentId)
       (with_body ''PUT'' (JSON_stringify (JObj [(''body'', JStr body_text)])))"

definition deleteComment :: "JiraClient \<Rightarrow> string \<Rightarrow> string \<Rightarrow> (js_error, unit) io" where
  "deleteComment this issueKey commentId =
     void (request this (''/issue/'' @ issueKey @ ''/comment/'' @ commentId)
             (with_method ''DELETE''))"

definition getTransitions :: "JiraClient \<Rightarrow> string \<Rightarrow> (js_error, jsval) io" where
  "getTransitions this issueKey = request_get this (''/issue/'' @ issueKey @ ''/transitions'')"

text \<open>
  The body starts as the transition wrapper; \<open>if (comment)\<close> adds the \<open>update\<close> property
  for a comment that is neither \<open>undefined\<close> nor empty.
\<close>

definition transitionIssue_body :: "string \<Rightarrow> string option \<Rightarrow> jsval obj" where
  "transitionIssue_body transitionId comment =
     (let body = [(''transition'', JObj [(''id'', JStr transitionId)])]
      in case comment of
           None \<Rightarrow> body
         | Some c \<Rightarrow>
             if c \<noteq> [] then
               obj_set body ''update''
                 (JObj [(''comment'', JArr [JObj [(''add'', JObj [(''body'', JStr c)])]])])
             else body)"

definition transitionIssue ::
  "JiraClient \<Rightarrow> string \<Rightarrow> string \<Rightarrow> string option \<Rightarrow> (js_error, unit) io" where
  "transitionIssue this issueKey transitionId comment =
     void (request this (''/issue/'' @ issueKey @ ''/transitions'')
             (with_body ''POST''
                (JSON_stringify (JObj (transitionIssue_body transitionId comment)))))"

definition searchUsers :: "JiraClient \<Rightarrow> string \<Rightarrow> (js_error, jsval) io" where
  "searchUsers this query =
     request_get this (''/user/search?username='' @ encodeURIComponent query)"

definition getCurrentUser :: "JiraClient \<Rightarrow> (js_error, jsval) io" where
  "getCurrentUser this = request_get this ''/myself''"

definition addWatcher :: "JiraClient \<Rightarrow> string \<Rightarrow> string \<Rightarrow> (js_error, unit) io" where
  "addWatcher this issueKey username =
     void (request this (''/issue/'' @ issueKey @ ''/watchers'')
             (with_body ''POST'' (JSON_stringify (JStr username))))"

definition removeWatcher :: "JiraClient \<Rightarrow> string \<Rightarrow> string \<Rightarrow> (js_error, unit) io" where
  "removeWatcher this issueKey username =
     void (request this
             (''/issue/'' @ issueKey @ ''/watchers?username='' @ encodeURIComponent username)
             (with_method ''DELETE''))"

definition linkIssues :: "JiraClient \<Rightarrow> string \<Rightarrow> string \<Rightarrow> string \<Rightarrow> (js_error, unit) io" where
  "linkIssues this inwardIssue outwardIssue linkType =
     void (request this ''/issueLink''
             (with_body ''POST''
                (JSON_stringify
                   (JObj [(''type'', JObj [(''name'', JStr linkType)]),
                          (''inwardIssue'', JObj [(''key'', JStr inwardIssue)]),
                          (''outwardIssue'', JObj [(''key'', JStr outwardIssue)])]))))"

subsection \<open>Metadata\<close>

definition getIssueTypesForProject :: "JiraClient \<Rightarrow> string \<Rightarrow> (js_error, jsval) io" where
  "getIssueTypesForProject this projectKey =
     bind (request_get this (''/project/'' @ projectKey)) (\<lambda>project.
     bind (settle (js_prop project ''issueTypes'')) (\<lambda>issueTypes.
     return (if truthy issueTypes then issueTypes else JArr [])))"

definition getPriorities :: "JiraClient \<Rightarrow> (js_error, jsval) io" where
  "getPriorities this = request_get this ''/priority''"

definition getStatuses :: "JiraClient \<Rightarrow> (js_error, jsval) io" where
  "getStatuses this = request_get this ''/status''"

definition getCreateMetaIssueTypes :: "JiraClient \<Rightarrow> string \<Rightarrow> (js_error, jsval) io" where
  "getCreateMetaIssueTypes this projectKey =
     request_get this (''/issue/createmeta/'' @ projectKey @ ''/issuetypes'')"

text \<open>
  The issue type id is declared a string and is whatever the server sent as \<open>id\<close>; the
  template literal converts it.
\<close>

definition getCreateMetaFields :: "JiraClient \<Rightarrow> string \<Rightarrow> jsval \<Rightarrow> (js_error, jsval) io" where
  "getCreateMetaFields this projectKey issueTypeId =
     bind (settle (js_ToString issueTypeId)) (\<lambda>id.
     request_get this
       (''/issue/createmeta/'' @ projectKey @ ''/issuetypes/'' @ id @ ''?maxResults=100''))"

definition getEditMeta :: "JiraClient \<Rightarrow> string \<Rightarrow> (js_error, jsval) io" where
  "getEditMeta this issueKey = request_get this (''/issue/'' @ issueKey @ ''/editmeta'')"

definition getProjectVersions :: "JiraClient \<Rightarrow> string \<Rightarrow> (js_error, jsval) io" where
  "getProjectVersions this projectKey = request_get this (''/project/'' @ projectKey @ ''/versions'')"

definition getProjectComponents :: "JiraClient \<Rightarrow> string \<Rightarrow> (js_error, jsval) io" where
  "getProjectComponents this projectKey =
     request_get this (''/project/'' @ projectKey @ ''/components'')"

definition getFields :: "JiraClient \<Rightarrow> (js_error, jsval) io" where
  "getFields this = request_get this ''/field''"

definition getIssueLinkTypes :: "JiraClient \<Rightarrow> (js_error, jsval) io" where
  "getIssueLinkTypes this = request_get this ''/issueLinkType''"

definition createIssueRaw :: "JiraClient \<Rightarrow> jsval obj \<Rightarrow> (js_error, jsval) io" where
  "createIssueRaw this fields =
     request this ''/issue''
       (with_body ''POST'' (JSON_stringify (JObj [(''fields'', JObj fields)])))"

definition updateIssueRaw :: "JiraClient \<Rightarrow> string \<Rightarrow> jsval obj \<Rightarrow> (js_error, unit) io" where
  "updateIssueRaw this issueKey fields =
     void (request this (''/issue/'' @ issueKey)
             (with_body ''PUT'' (JSON_stringify (JObj [(''fields'', JObj fields)]))))"

subsection \<open>Create metadata\<close>

text \<open>
  The result of \<open>getCreateMeta\<close> is built by the client itself, so its shape is the declared
  one; the leaves are whatever the server sent. The \<open>_js\<close> functions give the object each
  literal builds, for \<open>JSON.stringify\<close>.
\<close>

datatype FieldMeta =
  FieldMeta (fieldId: jsval) (field_name: jsval) (required: jsval) (hasAllowedValues: bool)
    (allowedValues: jsval)

datatype IssueTypeMeta =
  IssueTypeMeta (issueType_id: jsval) (issueType_name: jsval) (issueType_fields: "FieldMeta list")

datatype CreateMeta = CreateMeta (meta_projectKey: string) (issueTypes: "IssueTypeMeta list")

definition FieldMeta_js :: "FieldMeta \<Rightarrow> jsval" where
  "FieldMeta_js f =
     JObj [(''fieldId'', fieldId f), (''name'', field_name f), (''required'', required f),
           (''hasAllowedValues'', JBool (hasAllowedValues f)),
           (''allowedValues'', allowedValues f)]"

definition IssueTypeMeta_js :: "IssueTypeMeta \<Rightarrow> jsval" where
  "IssueTypeMeta_js t =
     JObj [(''id'', issueType_id t), (''name'', issueType_name t),
           (''fields'', JArr (map FieldMeta_js (issueType_fields t)))]"

definition CreateMeta_js :: "CreateMeta \<Rightarrow> jsval" where
  "CreateMeta_js m =
     JObj [(''projectKey'', JStr (meta_projectKey m)),
           (''issueTypes'', JArr (map IssueTypeMeta_js (issueTypes m)))]"

text \<open>
  \<open>Promise.all\<close> over the promises of \<open>xs.map(async ...)\<close>. Every callback runs up to its
  \<open>fetch\<close> while \<open>map\<close> builds the array, so the calls go out in the order of the list and a
  failure of one does not hold back the calls of the others. The promise resolves to all
  results, or rejects; of several rejections the model takes the first of the list (in
  the source it is the first in time).
\<close>

fun Promise_all :: "('e, 'a) io list \<Rightarrow> ('e, 'a list) io" where
  "Promise_all [] = return []"
| "Promise_all (m # ms) = (\<lambda>remote calls.
     case m remote calls of (r, calls') \<Rightarrow>
       (case Promise_all ms remote calls' of (rs, calls'') \<Rightarrow>
          (case r of
             Inl e \<Rightarrow> Inl e
           | Inr a \<Rightarrow> (case rs of Inl e \<Rightarrow> Inl e | Inr as \<Rightarrow> Inr (a # as)),
           calls'')))"

text \<open>The filter's test \<open>t.name.toLowerCase() === issueTypeName.toLowerCase()\<close>.\<close>

definition name_matches :: "string \<Rightarrow> jsval \<Rightarrow> js_error + bool" where
  "name_matches issueTypeName t =
     and_then (js_prop t ''name'') (\<lambda>n.
     and_then (js_toLowerCase n) (\<lambda>l.
     Inr (l = toLowerCase issueTypeName)))"

text \<open>The callback of \<open>fieldsResult.values.map\<close>.\<close>

definition field_entry :: "jsval \<Rightarrow> js_error + FieldMeta" where
  "field_entry f =
     and_then (js_prop f ''fieldId'') (\<lambda>fieldId.
     and_then (js_prop f ''name'') (\<lambda>name.
     and_then (js_prop f ''required'') (\<lambda>required.
     and_then (js_prop f ''allowedValues'') (\<lambda>allowedValues.
     Inr (FieldMeta fieldId name required (truthy allowedValues) allowedValues)))))"

text \<open>The async callback of \<open>filteredTypes.map\<close>.\<close>

definition issueType_entry :: "JiraClient \<Rightarrow> string \<Rightarrow> jsval \<Rightarrow> (js_error, IssueTypeMeta) io" where
  "issueType_entry this projectKey issueType =
     bind (settle (js_prop issueType ''id'')) (\<lambda>issueTypeId.
     bind (getCreateMetaFields this projectKey issueTypeId) (\<lambda>fieldsResult.
     bind (settle (js_prop issueType ''id'')) (\<lambda>id.
     bind (settle (js_prop issueType ''name'')) (\<lambda>name.
     bind (settle (js_prop fieldsResult ''values'')) (\<lambda>values.
     bind (settle (js_array values ''map'')) (\<lambda>fs.
     bind (settle (collect (map field_entry fs))) (\<lambda>fields.
     return (IssueTypeMeta id name fields))))))))"

text \<open>
  \<open>getCreateMeta(projectKey, issueTypeName?)\<close>. The condition \<open>issueTypeName ? ... : ...\<close>
  filters for a name that is neither \<open>undefined\<close> nor empty, and keeps every issue type
  otherwise.
\<close>

definition getCreateMeta :: "JiraClient \<Rightarrow> string \<Rightarrow> string option \<Rightarrow> (js_error, CreateMeta) io" where
  "getCreateMeta this projectKey issueTypeName =
     bind (getCreateMetaIssueTypes this projectKey) (\<lambda>issueTypesResult.
     bind (settle (js_prop issueTypesResult ''values'')) (\<lambda>issueTypes.
     bind (settle
       (case issueTypeName of
          None \<Rightarrow> Inr issueTypes
        | Some n \<Rightarrow>
            if n \<noteq> [] then
              and_then (js_array issueTypes ''filter'') (\<lambda>ts.
              and_then (filter_throwing (name_matches n) ts) (\<lambda>matching.
              Inr (JArr matching)))
            else Inr issueTypes)) (\<lambda>filteredTypes.
     bind (settle (js_array filteredTypes ''map'')) (\<lambda>types.
     bind (Promise_all (map (issueType_entry this projectKey) types)) (\<lambda>entries.
     return (CreateMeta projectKey entries))))))"

text \<open>
  \<open>getFieldOptions\<close>: \<open>meta.issueTypes[0]\<close> is \<open>undefined\<close> for an empty list, and then
  \<open>!issueType?.fields\<close> holds; the \<open>fields\<close> of an entry is an array, which is truthy.
\<close>

definition getFieldOptions ::
  "JiraClient \<Rightarrow> string \<Rightarrow> string \<Rightarrow> string \<Rightarrow> (js_error, jsval) io" where
  "getFieldOptions this projectKey issueTypeName fieldKey =
     bind (getCreateMeta this projectKey (Some issueTypeName)) (\<lambda>meta.
     case issueTypes meta of
       [] \<Rightarrow> return (JArr [])
     | issueType # _ \<Rightarrow>
         (case find (\<lambda>f. fieldId f = JStr fieldKey) (issueType_fields issueType) of
            None \<Rightarrow> return (JArr [])
          | Some field \<Rightarrow>
              return (if truthy (allowedValues field) then allowedValues field else JArr [])))"

section \<open>Tool input schemas\<close>

text \<open>
  The schemas are zod schemas. A schema is modelled by its parser: the value it produces,
  typed as zod types it, or the messages of all the issues it found, in zod's order (the
  keys of an object in the order of the shape, the elements of an array by index). Only
  the messages are kept of an issue, since the handler reads nothing else.
\<close>

type_synonym 'a zod = "jsval \<Rightarrow> string list + 'a"

fun getParsedType :: "jsval \<Rightarrow> string" where
  "getParsedType JUndefined = ''undefined''"
| "getParsedType JNull = ''null''"
| "getParsedType (JBool b) = ''boolean''"
| "getParsedType (JNum t) = ''number''"
| "getParsedType (JStr s) = ''string''"
| "getParsedType (JArr xs) = ''array''"
| "getParsedType (JObj ps) = ''object''"
| "getParsedType JFunction = ''function''"

text \<open>The message zod's default error map gives an \<open>invalid_type\<close> issue.\<close>

definition invalid_type :: "string \<Rightarrow> jsval \<Rightarrow> string" where
  "invalid_type expected v =
     (if v = JUndefined then ''Required''
      else ''Expected '' @ expected @ '', received '' @ getParsedType v)"

text \<open>Two parts of one value: both are parsed, and the issues of both are reported.\<close>

fun z_pair :: "string list + 'a \<Rightarrow> string list + 'b \<Rightarrow> string list + 'a \<times> 'b" where
  "z_pair (Inr a) (Inr b) = Inr (a, b)"
| "z_pair (Inl i) (Inr b) = Inl i"
| "z_pair (Inr a) (Inl j) = Inl j"
| "z_pair (Inl i) (Inl j) = Inl (i @ j)"

fun z_all :: "(string list + 'a) list \<Rightarrow> string list + 'a list" where
  "z_all [] = Inr []"
| "z_all (r # rs) =
     (case z_pair r (z_all rs) of Inl i \<Rightarrow> Inl i | Inr (a, as) \<Rightarrow> Inr (a # as))"

definition z_string :: "string zod" where
  "z_string v = (case v of JStr s \<Rightarrow> Inr s | _ \<Rightarrow> Inl [invalid_type ''string'' v])"

definition z_number :: "string zod" where
  "z_number v = (case v of JNum t \<Rightarrow> Inr t | _ \<Rightarrow> Inl [invalid_type ''number'' v])"

definition z_array :: "'a zod \<Rightarrow> 'a list zod" where
  "z_array item v =
     (case v of JArr xs \<Rightarrow> z_all (map item xs) | _ \<Rightarrow> Inl [invalid_type ''array'' v])"

text \<open>\<open>.optional()\<close> accepts \<open>undefined\<close>, \<open>.nullable()\<close> accepts \<open>null\<close>; both give \<open>None\<close>.\<close>

definition z_optional :: "'a zod \<Rightarrow> 'a option zod" where
  "z_optional inner v =
     (if v = JUndefined then Inr None
      else case inner v of Inl i \<Rightarrow> Inl i | Inr a \<Rightarrow> Inr (Some a))"

definition z_nullable :: "'a zod \<Rightarrow> 'a option zod" where
  "z_nullable inner v =
     (if v = JNull then Inr None
      else case inner v of Inl i \<Rightarrow> Inl i | Inr a \<Rightarrow> Inr (Some a))"

definition z_default :: "jsval \<Rightarrow> 'a zod \<Rightarrow> 'a zod" where
  "z_default d inner v = inner (if v = JUndefined then d else v)"

text \<open>
  \<open>z.record(z.unknown())\<close>: any object, copied property by property into a new object;
  zod leaves the key \<open>__proto__\<close> out of the copy.
\<close>

definition z_record_unknown :: "jsval obj zod" where
  "z_record_unknown v =
     (case v of
        JObj ps \<Rightarrow> Inr (filter (\<lambda>p. fst p \<noteq> ''__proto__'') ps)
      | _ \<Rightarrow> Inl [invalid_type ''object'' v])"

text \<open>
  \<open>z.object(shape)\<close>: the value must be an object; the shape reads the keys it names
  (\<open>undefined\<close> for a missing one) and unknown keys are dropped.
\<close>

definition z_object :: "((string \<Rightarrow> jsval) \<Rightarrow> string list + 'a) \<Rightarrow> 'a zod" where
  "z_object shape v =
     (case v of JObj ps \<Rightarrow> shape (obj_get ps) | _ \<Rightarrow> Inl [invalid_type ''object'' v])"

text \<open>\<open>schema.parse(args)\<close> returns the value or throws the \<open>ZodError\<close>.\<close>

definition parse :: "'a zod \<Rightarrow> jsval \<Rightarrow> exn + 'a" where
  "parse schema v = (case schema v of Inl issues \<Rightarrow> Inl (ZodError issues) | Inr a \<Rightarrow> Inr a)"

subsection \<open>The schemas\<close>

definition GetIssueSchema :: "(string \<times> string list option) zod" where
  "GetIssueSchema = z_object (\<lambda>data.
     z_pair (z_string (data ''issueKey''))
            (z_optional (z_array z_string) (data ''expand'')))"

definition SearchIssuesSchema ::
  "(string \<times> string option \<times> string option \<times> string list option) zod" where
  "SearchIssuesSchema = z_object (\<lambda>data.
     z_pair (z_string (data ''jql''))
    (z_pair (z_default (JNum ''0'') (z_optional z_number) (data ''startAt''))
    (z_pair (z_default (JNum ''50'') (z_optional z_number) (data ''maxResults''))
            (z_optional (z_array z_string) (data ''fields'')))))"

definition CreateIssueSchema ::
  "(string \<times> string \<times> string \<times> string option \<times> string option \<times> string option
    \<times> string list option) zod" where
  "CreateIssueSchema = z_object (\<lambda>data.
     z_pair (z_string (data ''projectKey''))
    (z_pair (z_string (data ''summary''))
    (z_pair (z_string (data ''issueType''))
    (z_pair (z_optional z_string (data ''description''))
    (z_pair (z_optional z_string (data ''priority''))
    (z_pair (z_optional z_string (data ''assignee''))
            (z_optional (z_array z_string) (data ''labels''))))))))"

definition UpdateIssueSchema ::
  "(string \<times> string option \<times> string option \<times> string option \<times> string option
    \<times> string list option) zod" where
  "UpdateIssueSchema = z_object (\<lambda>data.
     z_pair (z_string (data ''issueKey''))
    (z_pair (z_optional z_string (data ''summary''))
    (z_pair (z_optional z_string (data ''description''))
    (z_pair (z_optional z_string (data ''priority''))
    (z_pair (z_optional z_string (data ''assignee''))
            (z_optional (z_array z_string) (data ''labels'')))))))"

definition AddCommentSchema :: "(string \<times> string) zod" where
  "AddCommentSchema = z_object (\<lambda>data.
     z_pair (z_string (data ''issueKey'')) (z_string (data ''body'')))"

definition TransitionIssueSchema :: "(string \<times> string \<times> string option) zod" where
  "TransitionIssueSchema = z_object (\<lambda>data.
     z_pair (z_string (data ''issueKey''))
    (z_pair (z_string (data ''transitionId''))
            (z_optional z_string (data ''comment''))))"

definition AssignIssueSchema :: "(string \<times> string option) zod" where
  "AssignIssueSchema = z_object (\<lambda>data.
     z_pair (z_string (data ''issueKey''))
            (z_nullable z_string (data ''assignee'')))"

definition GetCommentsSchema :: "string zod" where
  "GetCommentsSchema = z_object (\<lambda>data. z_string (data ''issueKey''))"

definition GetTransitionsSchema :: "string zod" where
  "GetTransitionsSchema = z_object (\<lambda>data. z_string (data ''issueKey''))"

definition DeleteIssueSchema :: "string zod" where
  "DeleteIssueSchema = z_object (\<lambda>data. z_string (data ''issueKey''))"

definition GetProjectSchema :: "string zod" where
  "GetProjectSchema = z_object (\<lambda>data. z_string (data ''projectKey''))"

definition SearchUsersSchema :: "string zod" where
  "SearchUsersSchema = z_object (\<lambda>data. z_string (data ''query''))"

definition LinkIssuesSchema :: "(string \<times> string \<times> string) zod" where
  "LinkIssuesSchema = z_object (\<lambda>data.
     z_pair (z_string (data ''inwardIssue''))
    (z_pair (z_string (data ''outwardIssue''))
            (z_string (data ''linkType''))))"

definition AddWatcherSchema :: "(string \<times> string) zod" where
  "AddWatcherSchema = z_object (\<lambda>data.
     z_pair (z_string (data ''issueKey'')) (z_string (data ''username'')))"

definition GetCreateMetaSchema :: "(string \<times> string option) zod" where
  "GetCreateMetaSchema = z_object (\<lambda>data.
     z_pair (z_string (data ''projectKey''))
            (z_optional z_string (data ''issueType'')))"

definition GetEditMetaSchema :: "string zod" where
  "GetEditMetaSchema = z_object (\<lambda>data. z_string (data ''issueKey''))"

definition GetProjectVersionsSchema :: "string zod" where
  "GetProjectVersionsSchema = z_object (\<lambda>data. z_string (data ''projectKey''))"

definition GetProjectComponentsSchema :: "string zod" where
  "GetProjectComponentsSchema = z_object (\<lambda>data. z_string (data ''projectKey''))"

definition CreateIssueAdvancedSchema ::
  "(string \<times> string \<times> string \<times> string option \<times> string option \<times> string option
    \<times> string option \<times> string list option \<times> string list option \<times> string list option
    \<times> string list option \<times> jsval obj option) zod" where
  "CreateIssueAdvancedSchema = z_object (\<lambda>data.
     z_pair (z_string (data ''projectKey''))
    (z_pair (z_string (data ''summary''))
    (z_pair (z_string (data ''issueType''))
    (z_pair (z_optional z_string (data ''description''))
    (z_pair (z_optional z_string (data ''priority''))
    (z_pair (z_optional z_string (data ''assignee''))
    (z_pair (z_optional z_string (data ''reporter''))
    (z_pair (z_optional (z_array z_string) (data ''labels''))
    (z_pair (z_optional (z_array z_string) (data ''components''))
    (z_pair (z_optional (z_array z_string) (data ''fixVersions''))
    (z_pair (z_optional (z_array z_string) (data ''affectsVersions''))
            (z_optional z_record_unknown (data ''customFields'')))))))))))))"

definition UpdateIssueAdvancedSchema ::
  "(string \<times> string option \<times> string option \<times> string option \<times> string option
    \<times> string list option \<times> string list option \<times> string list option
    \<times> string list option \<times> jsval obj option) zod" where
  "UpdateIssueAdvancedSchema = z_object (\<lambda>data.
     z_pair (z_string (data ''issueKey''))
    (z_pair (z_optional z_string (data ''summary''))
    (z_pair (z_optional z_string (data ''description''))
    (z_pair (z_optional z_string (data ''priority''))
    (z_pair (z_optional z_string (data ''assignee''))
    (z_pair (z_optional (z_array z_string) (data ''labels''))
    (z_pair (z_optional (z_array z_string) (data ''components''))
    (z_pair (z_optional (z_array z_string) (data ''fixVersions''))
    (z_pair (z_optional (z_array z_string) (data ''affectsVersions''))
            (z_optional z_record_unknown (data ''customFields'')))))))))))"

definition GetFieldOptionsSchema :: "(string \<times> string \<times> string) zod" where
  "GetFieldOptionsSchema = z_object (\<lambda>data.
     z_pair (z_string (data ''projectKey''))
    (z_pair (z_string (data ''issueType''))
            (z_string (data ''fieldKey''))))"

section \<open>The tool dispatcher\<close>

text \<open>
  A reply is \<open>{content: [{type: "text", text}]}\<close>; the text is \<open>None\<close> where
  \<open>JSON.stringify\<close> returned \<open>undefined\<close>.
\<close>

datatype TextContent = TextContent (content_text: "string option")

datatype CallToolResult = CallToolResult (content: "TextContent list")

definition json_reply :: "jsval \<Rightarrow> CallToolResult" where
  "json_reply v = CallToolResult [TextContent (JSON_stringify_2 v)]"

definition text_reply :: "string \<Rightarrow> CallToolResult" where
  "text_reply t = CallToolResult [TextContent (Some t)]"

subsection \<open>Building field maps\<close>

text \<open>
  In an object literal, \<open>...(x && {k: f(x)})\<close> contributes the property for a truthy \<open>x\<close>
  and nothing otherwise; a string is truthy unless empty, an array always.
\<close>

definition and_string :: "string option \<Rightarrow> (string \<Rightarrow> jsval obj) \<Rightarrow> jsval obj" where
  "and_string x f = (case x of None \<Rightarrow> [] | Some s \<Rightarrow> if s \<noteq> [] then f s else [])"

definition and_array :: "string list option \<Rightarrow> (string list \<Rightarrow> jsval obj) \<Rightarrow> jsval obj" where
  "and_array x f = (case x of None \<Rightarrow> [] | Some xs \<Rightarrow> f xs)"

text \<open>An object literal, given as its parts in order (a property, or the object spread).\<close>

definition object_literal :: "jsval obj list \<Rightarrow> jsval obj" where
  "object_literal parts = foldl spread [] parts"

text \<open>The statement \<open>if (x) fields.k = f(x);\<close> for a string and for an array.\<close>

definition if_string :: "string option \<Rightarrow> string \<Rightarrow> (string \<Rightarrow> jsval) \<Rightarrow> jsval obj \<Rightarrow> jsval obj" where
  "if_string x k f fields =
     (case x of None \<Rightarrow> fields | Some s \<Rightarrow> if s \<noteq> [] then obj_set fields k (f s) else fields)"

definition if_array ::
  "string list option \<Rightarrow> string \<Rightarrow> (string list \<Rightarrow> jsval) \<Rightarrow> jsval obj \<Rightarrow> jsval obj" where
  "if_array x k f fields = (case x of None \<Rightarrow> fields | Some xs \<Rightarrow> obj_set fields k (f xs))"

definition name_ref :: "string \<Rightarrow> jsval" where
  "name_ref name = JObj [(''name'', JStr name)]"

definition strings :: "string list \<Rightarrow> jsval" where
  "strings xs = JArr (map JStr xs)"

definition name_refs :: "string list \<Rightarrow> jsval" where
  "name_refs names = JArr (map name_ref names)"

text \<open>The \<open>fields\<close> of \<open>jira_create_issue\<close> and of \<open>jira_update_issue\<close>.\<close>

definition create_issue_fields ::
  "string \<Rightarrow> string \<Rightarrow> string \<Rightarrow> string option \<Rightarrow> string option \<Rightarrow> string option
     \<Rightarrow> string list option \<Rightarrow> jsval obj" where
  "create_issue_fields projectKey summary issueType description priority assignee labels =
     object_literal
       [[(''project'', JObj [(''key'', JStr projectKey)])],
        [(''summary'', JStr summary)],
        [(''issuetype'', JObj [(''name'', JStr issueType)])],
        and_string description (\<lambda>description. [(''description'', JStr description)]),
        and_string priority (\<lambda>priority. [(''priority'', name_ref priority)]),
        and_string assignee (\<lambda>assignee. [(''assignee'', name_ref assignee)]),
        and_array labels (\<lambda>labels. [(''labels'', strings labels)])]"

definition update_issue_fields ::
  "string option \<Rightarrow> string option \<Rightarrow> string option \<Rightarrow> string option \<Rightarrow> string list option
     \<Rightarrow> jsval obj" where
  "update_issue_fields summary description priority assignee labels =
     object_literal
       [and_string summary (\<lambda>summary. [(''summary'', JStr summary)]),
        and_string description (\<lambda>description. [(''description'', JStr description)]),
        and_string priority (\<lambda>priority. [(''priority'', name_ref priority)]),
        and_string assignee (\<lambda>assignee. [(''assignee'', name_ref assignee)]),
        and_array labels (\<lambda>labels. [(''labels'', strings labels)])]"

text \<open>
  The \<open>fields\<close> of the advanced tools before the custom fields are merged: the literal,
  then the conditional assignments in the order of the source.
\<close>

definition create_issue_advanced_named ::
  "string \<Rightarrow> string \<Rightarrow> string \<Rightarrow> string option \<Rightarrow> string option \<Rightarrow> string option
     \<Rightarrow> string option \<Rightarrow> string list option \<Rightarrow> string list option \<Rightarrow> string list option
     \<Rightarrow> string list option \<Rightarrow> jsval obj" where
  "create_issue_advanced_named projectKey summary issueType description priority assignee
       reporter labels components fixVersions affectsVersions =
     (let fields = [(''project'', JObj [(''key'', JStr projectKey)]),
                    (''summary'', JStr summary),
                    (''issuetype'', JObj [(''name'', JStr issueType)])];
          fields = if_string description ''description'' JStr fields;
          fields = if_string priority ''priority'' name_ref fields;
          fields = if_string assignee ''assignee'' name_ref fields;
          fields = if_string reporter ''reporter'' name_ref fields;
          fields = if_array labels ''labels'' strings fields;
          fields = if_array components ''components'' name_refs fields;
          fields = if_array fixVersions ''fixVersions'' name_refs fields;
          fields = if_array affectsVersions ''versions'' name_refs fields
      in fields)"

definition update_issue_advanced_named ::
  "string option \<Rightarrow> string option \<Rightarrow> string option \<Rightarrow> string option \<Rightarrow> string list option
     \<Rightarrow> string list option \<Rightarrow> string list option \<Rightarrow> string list option \<Rightarrow> jsval obj" where
  "update_issue_advanced_named summary description priority assignee labels components
       fixVersions affectsVersions =
     (let fields = [];
          fields = if_string summary ''summary'' JStr fields;
          fields = if_string description ''description'' JStr fields;
          fields = if_string priority ''priority'' name_ref fields;
          fields = if_string assignee ''assignee'' name_ref fields;
          fields = if_array labels ''labels'' strings fields;
          fields = if_array components ''components'' name_refs fields;
          fields = if_array fixVersions ''fixVersions'' name_refs fields;
          fields = if_array affectsVersions ''versions'' name_refs fields
      in fields)"

text \<open>\<open>if (customFields) { Object.assign(fields, customFields); }\<close>: an object is truthy.\<close>

definition merge_custom_fields :: "jsval obj \<Rightarrow> jsval obj option \<Rightarrow> jsval obj" where
  "merge_custom_fields fields customFields =
     (case customFields of None \<Rightarrow> fields | Some c \<Rightarrow> Object_assign fields c)"

subsection \<open>The cases of the switch\<close>

definition jira_get_issue :: "JiraClient \<Rightarrow> jsval \<Rightarrow> (exn, CallToolResult) io" where
  "jira_get_issue jiraClient args =
     bind (settle (parse GetIssueSchema args)) (\<lambda>(issueKey, expand).
     bind (await (getIssue jiraClient issueKey expand)) (\<lambda>issue.
     return (json_reply issue)))"

definition jira_search_issues :: "JiraClient \<Rightarrow> jsval \<Rightarrow> (exn, CallToolResult) io" where
  "jira_search_issues jiraClient args =
     bind (settle (parse SearchIssuesSchema args)) (\<lambda>(jql, startAt, maxResults, fields).
     bind (await (searchIssues jiraClient jql startAt maxResults fields)) (\<lambda>results.
     return (json_reply results)))"

definition jira_create_issue :: "JiraClient \<Rightarrow> jsval \<Rightarrow> (exn, CallToolResult) io" where
  "jira_create_issue jiraClient args =
     bind (settle (parse CreateIssueSchema args))
       (\<lambda>(projectKey, summary, issueType, description, priority, assignee, labels).
     bind (await (createIssue jiraClient
             (JObj [(''fields'', JObj (create_issue_fields projectKey summary issueType
                                         description priority assignee labels))])))
       (\<lambda>issue.
     return (json_reply issue)))"

definition jira_update_issue :: "JiraClient \<Rightarrow> jsval \<Rightarrow> (exn, CallToolResult) io" where
  "jira_update_issue jiraClient args =
     bind (settle (parse UpdateIssueSchema args))
       (\<lambda>(issueKey, summary, description, priority, assignee, labels).
     bind (await (updateIssue jiraClient issueKey
             (JObj [(''fields'', JObj (update_issue_fields summary description priority
                                         assignee labels))])))
       (\<lambda>_.
     return (text_reply (''Issue '' @ issueKey @ '' updated successfully''))))"

definition jira_delete_issue :: "JiraClient \<Rightarrow> jsval \<Rightarrow> (exn, CallToolResult) io" where
  "jira_delete_issue jiraClient args =
     bind (settle (parse DeleteIssueSchema args)) (\<lambda>issueKey.
     bind (await (deleteIssue jiraClient issueKey)) (\<lambda>_.
     return (text_reply (''Issue '' @ issueKey @ '' deleted successfully''))))"

text \<open>
  The reply of \<open>jira_assign_issue\<close> is chosen by \<open>assignee ? ... : ...\<close>: \<open>null\<close> and the empty
  string both take the second text.
\<close>

definition jira_assign_issue :: "JiraClient \<Rightarrow> jsval \<Rightarrow> (exn, CallToolResult) io" where
  "jira_assign_issue jiraClient args =
     bind (settle (parse AssignIssueSchema args)) (\<lambda>(issueKey, assignee).
     bind (await (assignIssue jiraClient issueKey assignee)) (\<lambda>_.
     return (text_reply
       (case assignee of
          None \<Rightarrow> ''Issue '' @ issueKey @ '' unassigned''
        | Some a \<Rightarrow>
            if a \<noteq> [] then ''Issue '' @ issueKey @ '' assigned to '' @ a
            else ''Issue '' @ issueKey @ '' unassigned''))))"

definition jira_get_comments :: "JiraClient \<Rightarrow> jsval \<Rightarrow> (exn, CallToolResult) io" where
  "jira_get_comments jiraClient args =
     bind (settle (parse GetCommentsSchema args)) (\<lambda>issueKey.
     bind (await (getComments jiraClient issueKey)) (\<lambda>comments.
     return (json_reply comments)))"

definition jira_add_comment :: "JiraClient \<Rightarrow> jsval \<Rightarrow> (exn, CallToolResult) io" where
  "jira_add_comment jiraClient args =
     bind (settle (parse AddCommentSchema args)) (\<lambda>(issueKey, body).
     bind (await (addComment jiraClient issueKey body)) (\<lambda>comment.
     return (json_reply comment)))"

definition jira_get_transitions :: "JiraClient \<Rightarrow> jsval \<Rightarrow> (exn, CallToolResult) io" where
  "jira_get_transitions jiraClient args =
     bind (settle (parse GetTransitionsSchema args)) (\<lambda>issueKey.
     bind (await (getTransitions jiraClient issueKey)) (\<lambda>transitions.
     return (json_reply transitions)))"

definition jira_transition_issue :: "JiraClient \<Rightarrow> jsval \<Rightarrow> (exn, CallToolResult) io" where
  "jira_transition_issue jiraClient args =
     bind (settle (parse TransitionIssueSchema args)) (\<lambda>(issueKey, transitionId, comment).
     bind (await (transitionIssue jiraClient issueKey transitionId comment)) (\<lambda>_.
     return (text_reply (''Issue '' @ issueKey @ '' transitioned successfully''))))"

definition jira_get_projects :: "JiraClient \<Rightarrow> jsval \<Rightarrow> (exn, CallToolResult) io" where
  "jira_get_projects jiraClient args =
     bind (await (getProjects jiraClient)) (\<lambda>projects.
     return (json_reply projects))"

definition jira_get_project :: "JiraClient \<Rightarrow> jsval \<Rightarrow> (exn, CallToolResult) io" where
  "jira_get_project jiraClient args =
     bind (settle (parse GetProjectSchema args)) (\<lambda>projectKey.
     bind (await (getProject jiraClient projectKey)) (\<lambda>project.
     return (json_reply project)))"

definition jira_search_users :: "JiraClient \<Rightarrow> jsval \<Rightarrow> (exn, CallToolResult) io" where
  "jira_search_users jiraClient args =
     bind (settle (parse SearchUsersSchema args)) (\<lambda>query.
     bind (await (searchUsers jiraClient query)) (\<lambda>users.
     return (json_reply users)))"

definition jira_get_current_user :: "JiraClient \<Rightarrow> jsval \<Rightarrow> (exn, CallToolResult) io" where
  "jira_get_current_user jiraClient args =
     bind (await (getCurrentUser jiraClient)) (\<lambda>user.
     return (json_reply user))"

definition jira_link_issues :: "JiraClient \<Rightarrow> jsval \<Rightarrow> (exn, CallToolResult) io" where
  "jira_link_issues jiraClient args =
     bind (settle (parse LinkIssuesSchema args)) (\<lambda>(inwardIssue, outwardIssue, linkType).
     bind (await (linkIssues jiraClient inwardIssue outwardIssue linkType)) (\<lambda>_.
     return (text_reply
       (''Issues '' @ inwardIssue @ '' and '' @ outwardIssue @ '' linked with type ''
        @ [dquote] @ linkType @ [dquote]))))"

definition jira_add_watcher :: "JiraClient \<Rightarrow> jsval \<Rightarrow> (exn, CallToolResult) io" where
  "jira_add_watcher jiraClient args =
     bind (settle (parse AddWatcherSchema args)) (\<lambda>(issueKey, username).
     bind (await (addWatcher jiraClient issueKey username)) (\<lambda>_.
     return (text_reply (''Added '' @ username @ '' as watcher to '' @ issueKey))))"

definition jira_get_priorities :: "JiraClient \<Rightarrow> jsval \<Rightarrow> (exn, CallToolResult) io" where
  "jira_get_priorities jiraClient args =
     bind (await (getPriorities jiraClient)) (\<lambda>priorities.
     return (json_reply priorities))"

definition jira_get_statuses :: "JiraClient \<Rightarrow> jsval \<Rightarrow> (exn, CallToolResult) io" where
  "jira_get_statuses jiraClient args =
     bind (await (getStatuses jiraClient)) (\<lambda>statuses.
     return (json_reply statuses))"

definition jira_get_create_meta :: "JiraClient \<Rightarrow> jsval \<Rightarrow> (exn, CallToolResult) io" where
  "jira_get_create_meta jiraClient args =
     bind (settle (parse GetCreateMetaSchema args)) (\<lambda>(projectKey, issueType).
     bind (await (getCreateMeta jiraClient projectKey issueType)) (\<lambda>meta.
     return (json_reply (CreateMeta_js meta))))"

definition jira_get_edit_meta :: "JiraClient \<Rightarrow> jsval \<Rightarrow> (exn, CallToolResult) io" where
  "jira_get_edit_meta jiraClient args =
     bind (settle (parse GetEditMetaSchema args)) (\<lambda>issueKey.
     bind (await (getEditMeta jiraClient issueKey)) (\<lambda>meta.
     return (json_reply meta)))"

definition jira_get_project_versions :: "JiraClient \<Rightarrow> jsval \<Rightarrow> (exn, CallToolResult) io" where
  "jira_get_project_versions jiraClient args =
     bind (settle (parse GetProjectVersionsSchema args)) (\<lambda>projectKey.
     bind (await (getProjectVersions jiraClient projectKey)) (\<lambda>versions.
     return (json_reply versions)))"

definition jira_get_project_components :: "JiraClient \<Rightarrow> jsval \<Rightarrow> (exn, CallToolResult) io" where
  "jira_get_project_components jiraClient args =
     bind (settle (parse GetProjectComponentsSchema args)) (\<lambda>projectKey.
     bind (await (getProjectComponents jiraClient projectKey)) (\<lambda>components.
     return (json_reply components)))"

definition jira_get_fields :: "JiraClient \<Rightarrow> jsval \<Rightarrow> (exn, CallToolResult) io" where
  "jira_get_fields jiraClient args =
     bind (await (getFields jiraClient)) (\<lambda>fields.
     return (json_reply fields))"

definition jira_get_field_options :: "JiraClient \<Rightarrow> jsval \<Rightarrow> (exn, CallToolResult) io" where
  "jira_get_field_options jiraClient args =
     bind (settle (parse GetFieldOptionsSchema args)) (\<lambda>(projectKey, issueType, fieldKey).
     bind (await (getFieldOptions jiraClient projectKey issueType fieldKey)) (\<lambda>options.
     return (json_reply options)))"

definition jira_get_issue_link_types :: "JiraClient \<Rightarrow> jsval \<Rightarrow> (exn, CallToolResult) io" where
  "jira_get_issue_link_types jiraClient args =
     bind (await (getIssueLinkTypes jiraClient)) (\<lambda>linkTypes.
     return (json_reply linkTypes))"

definition jira_create_issue_advanced :: "JiraClient \<Rightarrow> jsval \<Rightarrow> (exn, CallToolResult) io" where
  "jira_create_issue_advanced jiraClient args =
     bind (settle (parse CreateIssueAdvancedSchema args))
       (\<lambda>(projectKey, summary, issueType, description, priority, assignee, reporter, labels,
          components, fixVersions, affectsVersions, customFields).
     let fields = create_issue_advanced_named projectKey summary issueType description
                    priority assignee reporter labels components fixVersions affectsVersions;
         fields = merge_custom_fields fields customFields
     in
     bind (await (createIssueRaw jiraClient fields)) (\<lambda>issue.
     return (json_reply issue)))"

definition jira_update_issue_advanced :: "JiraClient \<Rightarrow> jsval \<Rightarrow> (exn, CallToolResult) io" where
  "jira_update_issue_advanced jiraClient args =
     bind (settle (parse UpdateIssueAdvancedSchema args))
       (\<lambda>(issueKey, summary, description, priority, assignee, labels, components, fixVersions,
          affectsVersions, customFields).
     let fields = update_issue_advanced_named summary description priority assignee labels
                    components fixVersions affectsVersions;
         fields = merge_custom_fields fields customFields
     in
     bind (await (updateIssueRaw jiraClient issueKey fields)) (\<lambda>_.
     return (text_reply (''Issue '' @ issueKey @ '' updated successfully''))))"

subsection \<open>The handler of tool calls\<close>

text \<open>The names of the tools the handler of \<open>ListTools\<close> returns, in its order.\<close>

definition tool_names :: "string list" where
  "tool_names =
     [''jira_get_issue'', ''jira_search_issues'', ''jira_create_issue'', ''jira_update_issue'',
      ''jira_delete_issue'', ''jira_assign_issue'', ''jira_get_comments'', ''jira_add_comment'',
      ''jira_get_transitions'', ''jira_transition_issue'', ''jira_get_projects'',
      ''jira_get_project'', ''jira_search_users'', ''jira_get_current_user'',
      ''jira_link_issues'', ''jira_add_watcher'', ''jira_get_priorities'',
      ''jira_get_statuses'', ''jira_get_create_meta'', ''jira_get_edit_meta'',
      ''jira_get_project_versions'', ''jira_get_project_components'', ''jira_get_fields'',
      ''jira_get_field_options'', ''jira_get_issue_link_types'',
      ''jira_create_issue_advanced'', ''jira_update_issue_advanced'']"

text \<open>The \<open>switch (name)\<close> inside the \<open>try\<close>.\<close>

definition switch_name :: "JiraClient \<Rightarrow> string \<Rightarrow> jsval \<Rightarrow> (exn, CallToolResult) io" where
  "switch_name jiraClient name args =
     (if name = ''jira_get_issue'' then jira_get_issue jiraClient args
      else if name = ''jira_search_issues'' then jira_search_issues jiraClient args
      else if name = ''jira_create_issue'' then jira_create_issue jiraClient args
      else if name = ''jira_update_issue'' then jira_update_issue jiraClient args
      else if name = ''jira_delete_issue'' then jira_delete_issue jiraClient args
      else if name = ''jira_assign_issue'' then jira_assign_issue jiraClient args
      else if name = ''jira_get_comments'' then jira_get_comments jiraClient args
      else if name = ''jira_add_comment'' then jira_add_comment jiraClient args
      else if name = ''jira_get_transitions'' then jira_get_transitions jiraClient args
      else if name = ''jira_transition_issue'' then jira_transition_issue jiraClient args
      else if name = ''jira_get_projects'' then jira_get_projects jiraClient args
      else if name = ''jira_get_project'' then jira_get_project jiraClient args
      else if name = ''jira_search_users'' then jira_search_users jiraClient args
      else if name = ''jira_get_current_user'' then jira_get_current_user jiraClient args
      else if name = ''jira_link_issues'' then jira_link_issues jiraClient args
      else if name = ''jira_add_watcher'' then jira_add_watcher jiraClient args
      else if name = ''jira_get_priorities'' then jira_get_priorities jiraClient args
      else if name = ''jira_get_statuses'' then jira_get_statuses jiraClient args
      else if name = ''jira_get_create_meta'' then jira_get_create_meta jiraClient args
      else if name = ''jira_get_edit_meta'' then jira_get_edit_meta jiraClient args
      else if name = ''jira_get_project_versions'' then jira_get_project_versions jiraClient args
      else if name = ''jira_get_project_components'' then
        jira_get_project_components jiraClient args
      else if name = ''jira_get_fields'' then jira_get_fields jiraClient args
      else if name = ''jira_get_field_options'' then jira_get_field_options jiraClient args
      else if name = ''jira_get_issue_link_types'' then jira_get_issue_link_types jiraClient args
      else if name = ''jira_create_issue_advanced'' then
        jira_create_issue_advanced jiraClient args
      else if name = ''jira_update_issue_advanced'' then
        jira_update_issue_advanced jiraClient args
      else throw (Mcp (McpError MethodNotFound (''Unknown tool: '' @ name))))"

text \<open>
  The \<open>catch\<close> of the handler: a \<open>ZodError\<close> becomes one \<open>InvalidParams\<close> error with the
  messages joined, an \<open>McpError\<close> is thrown on, anything else becomes an \<open>InternalError\<close>.
\<close>

fun catch_error :: "string \<Rightarrow> exn \<Rightarrow> McpError" where
  "catch_error name (ZodError issues) =
     McpError InvalidParams (''Invalid parameters: '' @ join '', '' issues)"
| "catch_error name (Mcp error) = error"
| "catch_error name (Thrown error) =
     McpError InternalError (''Error executing '' @ name @ '': '' @ message error)"

definition CallTool :: "JiraClient \<Rightarrow> string \<Rightarrow> jsval \<Rightarrow> (McpError, CallToolResult) io" where
  "CallTool jiraClient name args = (\<lambda>remote calls.
     case switch_name jiraClient name args remote calls of
       (Inr reply, calls') \<Rightarrow> (Inr reply, calls')
     | (Inl error, calls') \<Rightarrow> (Inl (catch_error name error), calls'))"

section \<open>Listing resources\<close>

datatype Resource =
  Resource (uri: string) (resource_name: string) (resource_description: string)
    (mimeType: string)

text \<open>The callback of \<open>projects.slice(0, 20).map\<close>.\<close>

definition project_resource :: "jsval \<Rightarrow> js_error + Resource" where
  "project_resource project =
     and_then (js_prop project ''key'') (\<lambda>key.
     and_then (js_ToString key) (\<lambda>key.
     and_then (js_prop project ''name'') (\<lambda>name.
     and_then (js_ToString name) (\<lambda>name.
     Inr (Resource (''jira://project/'' @ key) (''Project: '' @ key)
            (name @ '' - versions, components, and issue types'') ''application/json'')))))"

text \<open>
  The array literal of the \<open>try\<close> block, from the two values the server sent. Of the values
  that are not arrays, a string has \<open>slice\<close> and fails one step later, at \<open>map\<close>; both are
  a \<open>TypeError\<close>.
\<close>

definition resources_of :: "jsval \<Rightarrow> jsval \<Rightarrow> js_error + Resource list" where
  "resources_of projects currentUser =
     and_then (js_prop projects ''length'') (\<lambda>n.
     and_then (js_ToString n) (\<lambda>n.
     and_then (js_array projects ''slice'') (\<lambda>ps.
     and_then (collect (map project_resource (take 20 ps))) (\<lambda>project_resources.
     and_then (js_prop currentUser ''displayName'') (\<lambda>displayName.
     and_then (js_ToString displayName) (\<lambda>displayName.
     Inr ([Resource ''jira://config'' ''Jira Configuration''
             ''Current Jira server configuration and connection info'' ''application/json'',
           Resource ''jira://current-user'' ''Current User''
             ''Currently authenticated Jira user'' ''application/json'',
           Resource ''jira://priorities'' ''Priorities''
             ''All available issue priorities'' ''application/json'',
           Resource ''jira://statuses'' ''Statuses''
             ''All available issue statuses'' ''application/json'',
           Resource ''jira://fields'' ''Fields''
             ''All available fields including custom fields'' ''application/json'',
           Resource ''jira://link-types'' ''Issue Link Types''
             ''All available issue link types'' ''application/json'',
           Resource ''jira://projects'' ''All Projects''
             (''List of all '' @ n @ '' Jira projects'') ''application/json'']
          @ project_resources
          @ [Resource ''jira://my-issues'' ''My Issues''
               (''Issues assigned to '' @ displayName) ''application/json''])))))))"

text \<open>The resource list of the \<open>catch\<close> block.\<close>

definition static_resources :: "Resource list" where
  "static_resources =
     [Resource ''jira://config'' ''Jira Configuration'' ''Current Jira server configuration''
        ''application/json'']"

text \<open>\<open>try { ... } catch (error) { ... }\<close> with a handler that takes over on any throw.\<close>

definition try_catch :: "('e, 'a) io \<Rightarrow> ('e \<Rightarrow> ('f, 'a) io) \<Rightarrow> ('f, 'a) io" where
  "try_catch m handler = (\<lambda>remote calls.
     case m remote calls of
       (Inr a, calls') \<Rightarrow> (Inr a, calls')
     | (Inl e, calls') \<Rightarrow> handler e remote calls')"

definition ListResources :: "JiraClient \<Rightarrow> (McpError, Resource list) io" where
  "ListResources jiraClient =
     try_catch
       (bind (getProjects jiraClient) (\<lambda>projects.
        bind (getCurrentUser jiraClient) (\<lambda>currentUser.
        bind (settle (resources_of projects currentUser)) (\<lambda>resources.
        return resources))))
       (\<lambda>error. return static_resources)"

section \<open>What a tool's input schema reports\<close>

text \<open>
  The issues a schema finds in a value, \<open>None\<close> when it accepts the value; and the schema
  each case of the switch parses its arguments with. The six tools that take no arguments
  parse nothing.
\<close>

definition schema_issues :: "'a zod \<Rightarrow> jsval \<Rightarrow> string list option" where
  "schema_issues schema v = (case schema v of Inl issues \<Rightarrow> Some issues | Inr a \<Rightarrow> None)"

definition input_schema_issues :: "string \<Rightarrow> jsval \<Rightarrow> string list option" where
  "input_schema_issues name args =
     (if name = ''jira_get_issue'' then schema_issues GetIssueSchema args
      else if name = ''jira_search_issues'' then schema_issues SearchIssuesSchema args
      else if name = ''jira_create_issue'' then schema_issues CreateIssueSchema args
      else if name = ''jira_update_issue'' then schema_issues UpdateIssueSchema args
      else if name = ''jira_delete_issue'' then schema_issues DeleteIssueSchema args
      else if name = ''jira_assign_issue'' then schema_issues AssignIssueSchema args
      else if name = ''jira_get_comments'' then schema_issues GetCommentsSchema args
      else if name = ''jira_add_comment'' then schema_issues AddCommentSchema args
      else if name = ''jira_get_transitions'' then schema_issues GetTransitionsSchema args
      else if name = ''jira_transition_issue'' then schema_issues TransitionIssueSchema args
      else if name = ''jira_get_project'' then schema_issues GetProjectSchema args
      else if name = ''jira_search_users'' then schema_issues SearchUsersSchema args
      else if name = ''jira_link_issues'' then schema_issues LinkIssuesSchema args
      else if name = ''jira_add_watcher'' then schema_issues AddWatcherSchema args
      else if name = ''jira_get_create_meta'' then schema_issues GetCreateMetaSchema args
      else if name = ''jira_get_edit_meta'' then schema_issues GetEditMetaSchema args
      else if name = ''jira_get_project_versions'' then
        schema_issues GetProjectVersionsSchema args
      else if name = ''jira_get_project_components'' then
        schema_issues GetProjectComponentsSchema args
      else if name = ''jira_get_field_options'' then schema_issues GetFieldOptionsSchema args
      else if name = ''jira_create_issue_advanced'' then
        schema_issues CreateIssueAdvancedSchema args
      else if name = ''jira_update_issue_advanced'' then
        schema_issues UpdateIssueAdvancedSchema args
      else None)"

section \<open>Example servers\<close>

text \<open>A client, and servers to run the handlers against.\<close>

definition demo_client :: JiraClient where
  "demo_client = new_JiraClient (JiraConfig ''https://jira.example.com/'' ''token'')"

text \<open>A response whose body is the JSON text of a value.\<close>

definition json_response :: "nat \<Rightarrow> jsval \<Rightarrow> Response" where
  "json_response code v =
     Response code (case JSON_stringify v of Some t \<Rightarrow> t | None \<Rightarrow> []) (Inr v)"

text \<open>A server that cannot be reached, and one that answers every call with 204.\<close>

definition offline :: remote where
  "offline calls = Rejected ''fetch failed''"

definition no_content :: remote where
  "no_content calls = Resolved (Response 204 [] (Inl ''Unexpected end of JSON input''))"

text \<open>A server that lists no projects and refuses everything else.\<close>

definition projects_only :: remote where
  "projects_only calls =
     (if url (last calls) = ''https://jira.example.com/rest/api/2/project''
      then Resolved (json_response 200 (JArr []))
      else Resolved (Response 401 ''Unauthorized'' (Inl ''Unexpected token U in JSON'')))"

text \<open>
  A server with one project \<open>DEMO\<close> that has one issue type, \<open>Bug\<close>, whose field
  \<open>priority\<close> allows the value \<open>High\<close>.
\<close>

definition demo_issue_types :: "jsval list" where
  "demo_issue_types = [JObj [(''id'', JStr ''1''), (''name'', JStr ''Bug'')]]"

definition demo_high :: jsval where
  "demo_high = JObj [(''id'', JStr ''1''), (''name'', JStr ''High'')]"

definition demo_remote :: remote where
  "demo_remote calls =
     (if url (last calls)
           = ''https://jira.example.com/rest/api/2/issue/createmeta/DEMO/issuetypes''
      then Resolved (json_response 200 (JObj [(''values'', JArr demo_issue_types)]))
      else Resolved (json_response 200
             (JObj [(''values'',
                JArr [JObj [(''fieldId'', JStr ''priority''), (''name'', JStr ''Priority''),
                            (''required'', JBool False),
                            (''allowedValues'', JArr [demo_high])]])])))"

section \<open>Lemmas on effects\<close>

lemma bind_eq:
  "bind m f remote calls =
     (case m remote calls of
        (Inl e, calls') \<Rightarrow> (Inl e, calls')
      | (Inr a, calls') \<Rightarrow> f a remote calls')"
  by (simp add: bind_def)

lemma bind_settle:
  "bind (settle r) f remote calls =
     (case r of Inl e \<Rightarrow> (Inl e, calls) | Inr a \<Rightarrow> f a remote calls)"
  by (simp add: bind_def settle_def split: sum.splits)

lemma try_catch_eq:
  "try_catch m h remote calls =
     (case m remote calls of
        (Inr a, calls') \<Rightarrow> (Inr a, calls')
      | (Inl e, calls') \<Rightarrow> h e remote calls')"
  by (simp add: try_catch_def)

lemma snd_bind_await_return:
  "snd (bind (await m) (\<lambda>a. return (g a)) remote calls) = snd (m remote calls)"
  by (simp add: bind_def await_def return_def split: prod.splits sum.splits)

lemma fst_bind_await_return:
  "fst (bind (await m) (\<lambda>a. return (g a)) remote calls) =
     (case fst (m remote calls) of Inl e \<Rightarrow> Inl (Thrown e) | Inr a \<Rightarrow> Inr (g a))"
  by (simp add: bind_def await_def return_def split: prod.splits sum.splits)

lemma snd_void: "snd (void m remote calls) = snd (m remote calls)"
  by (simp add: void_def bind_def return_def split: prod.splits sum.splits)

lemma fst_void:
  "fst (void m remote calls) = (case fst (m remote calls) of Inl e \<Rightarrow> Inl e | Inr a \<Rightarrow> Inr ())"
  by (simp add: void_def bind_def return_def split: prod.splits sum.splits)

lemma snd_CallTool:
  "snd (CallTool jiraClient name args remote calls)
     = snd (switch_name jiraClient name args remote calls)"
  by (simp add: CallTool_def split: prod.splits sum.splits)

lemma fst_CallTool:
  "fst (CallTool jiraClient name args remote calls) =
     (case fst (switch_name jiraClient name args remote calls) of
        Inl e \<Rightarrow> Inl (catch_error name e)
      | Inr r \<Rightarrow> Inr r)"
  by (simp add: CallTool_def split: prod.splits sum.splits)

section \<open>Properties of the Remote Client\<close>

lemma replace_trailing_slash_snoc: "replace_trailing_slash (b @ ''/'') = b"
  by (simp add: replace_trailing_slash_def)

lemma replace_trailing_slash_other: "\<not> (\<exists>b. u = b @ ''/'') \<Longrightarrow> replace_trailing_slash u = u"
  unfolding replace_trailing_slash_def by (metis append_butlast_last_id)

text \<open>Whatever the server answers, \<open>request\<close> makes exactly one call, and this is the call.\<close>

lemma request_calls:
  "snd (request this endpoint options remote calls) =
     calls @ [fetch_call (this_baseUrl this @ ''/rest/api/2'' @ endpoint) (init_method options)
               (spread (this_headers this) (init_headers options)) (init_body options)]"
  by (simp add: request_def Let_def split: fetch_result.splits sum.splits)

text \<open>
  C9. The constructor stores the base URL without its last character when that is a
  slash (so of several trailing slashes one is removed), and unchanged otherwise; every
  \<open>request\<close> calls the URL made of the stored base URL, \<open>/rest/api/2\<close> and the endpoint it
  was given.
\<close>

theorem base_url_stripped_once_and_endpoint_url:
  "this_baseUrl (new_JiraClient (JiraConfig (b @ ''/'') token)) = b
   \<and> ((\<nexists>b'. u = b' @ ''/'') \<longrightarrow> this_baseUrl (new_JiraClient (JiraConfig u token)) = u)
   \<and> (\<exists>call. snd (request this endpoint options remote calls) = calls @ [call]
         \<and> url call = this_baseUrl this @ ''/rest/api/2'' @ endpoint)"
  by (simp add: new_JiraClient_def replace_trailing_slash_snoc replace_trailing_slash_other
      request_calls)

theorem base_url_stripped_once_and_endpoint_url_witness:
  "this_baseUrl (new_JiraClient (JiraConfig ''https://jira.example.com//'' ''token''))
     = ''https://jira.example.com/''
   \<and> this_baseUrl (new_JiraClient (JiraConfig ''https://jira.example.com'' ''token''))
     = ''https://jira.example.com''
   \<and> (\<exists>call. snd (request (new_JiraClient (JiraConfig ''https://jira.example.com/'' ''token''))
                      ''/myself'' no_init (\<lambda>calls. Rejected ''offline'') []) = [call]
         \<and> url call = ''https://jira.example.com/rest/api/2/myself'')"
proof -
  have no_slash: "\<nexists>b'. ''https://jira.example.com'' = b' @ ''/''"
  proof
    assume "\<exists>b'. ''https://jira.example.com'' = b' @ ''/''"
    then obtain b' where "''https://jira.example.com'' = b' @ ''/''" ..
    then have "last ''https://jira.example.com'' = last (b' @ ''/'')" by (rule arg_cong)
    then show False by simp
  qed
  show ?thesis
    using no_slash
      base_url_stripped_once_and_endpoint_url [of "''https://jira.example.com/''" "''token''"
        "''https://jira.example.com''"
        "new_JiraClient (JiraConfig ''https://jira.example.com/'' ''token'')"
        "''/myself''" no_init "\<lambda>calls. Rejected ''offline''" "[]"]
    by (simp add: new_JiraClient_def replace_trailing_slash_def)
qed

lemma fst_request:
  "fst (request this endpoint options remote calls) =
     (case remote (calls @ [fetch_call (this_baseUrl this @ ''/rest/api/2'' @ endpoint)
                              (init_method options)
                              (spread (this_headers this) (init_headers options))
                              (init_body options)]) of
        Rejected m \<Rightarrow> Inl (TypeError m)
      | Resolved response \<Rightarrow>
          if \<not> ok response then
            Inl (Error (''Jira API error ('' @ show_nat (status response) @ ''): ''
                        @ response_text response))
          else if status response = 204 then Inr (JObj [])
          else (case response_json response of
                  Inl m \<Rightarrow> Inl (SyntaxError m)
                | Inr v \<Rightarrow> Inr v))"
  by (auto simp add: request_def Let_def split: fetch_result.splits sum.splits)

lemma QuoteJSONString_literals:
  "QuoteJSONString ''name'' = [dquote] @ ''name'' @ [dquote]"
  "QuoteJSONString ''fields'' = [dquote] @ ''fields'' @ [dquote]"
  "QuoteJSONString ''summary'' = [dquote] @ ''summary'' @ [dquote]"
  "QuoteJSONString ''transition'' = [dquote] @ ''transition'' @ [dquote]"
  "QuoteJSONString ''id'' = [dquote] @ ''id'' @ [dquote]"
  "QuoteJSONString ''update'' = [dquote] @ ''update'' @ [dquote]"
  "QuoteJSONString ''comment'' = [dquote] @ ''comment'' @ [dquote]"
  "QuoteJSONString ''add'' = [dquote] @ ''add'' @ [dquote]"
  "QuoteJSONString ''body'' = [dquote] @ ''body'' @ [dquote]"
  "QuoteJSONString [] = [dquote, dquote]"
  by (simp_all add: QuoteJSONString_def quote_char_def dquote_def backslash_def)

lemma demo_client_eq:
  "this_baseUrl demo_client = ''https://jira.example.com''"
  "this_headers demo_client =
     [(''Authorization'', ''Bearer token''), (''Content-Type'', ''application/json''),
      (''Accept'', ''application/json'')]"
  by (simp_all add: demo_client_def new_JiraClient_def replace_trailing_slash_def)

text \<open>
  C8. \<open>transitionIssue\<close> makes one POST to the issue's transitions. Its body is the
  serialization of an object whose \<open>transition\<close> property is \<open>{id: transitionId}\<close>; the
  object has an \<open>update\<close> property only when a comment was supplied, and then it is the
  append-comment block for that comment; without a comment the object has the one key
  \<open>transition\<close>. (A supplied comment that is the empty string adds no block either.)
\<close>

theorem transition_body_update_only_with_comment:
  "\<exists>b. snd (transitionIssue this issueKey transitionId comment remote calls) =
         calls @ [fetch_call
                    (this_baseUrl this @ ''/rest/api/2/issue/'' @ issueKey @ ''/transitions'')
                    (Some ''POST'') (this_headers this) (JSON_stringify (JObj b))]
     \<and> obj_get b ''transition'' = JObj [(''id'', JStr transitionId)]
     \<and> (''update'' \<in> fst ` set b \<longrightarrow>
          (\<exists>c. comment = Some c \<and>
             obj_get b ''update''
               = JObj [(''comment'', JArr [JObj [(''add'', JObj [(''body'', JStr c)])]])]))
     \<and> (\<forall>c. comment = Some c \<and> c \<noteq> [] \<longrightarrow> ''update'' \<in> fst ` set b)
     \<and> (comment = None \<longrightarrow> fst ` set b = {''transition''})
     \<and> JSON_stringify (JObj b) =
         Some (''{'' @ [dquote] @ ''transition'' @ [dquote] @ '':{'' @ [dquote] @ ''id''
               @ [dquote] @ '':'' @ QuoteJSONString transitionId @ ''}''
               @ (case comment of
                    None \<Rightarrow> []
                  | Some c \<Rightarrow>
                      if c = [] then []
                      else '','' @ [dquote] @ ''update'' @ [dquote] @ '':{'' @ [dquote]
                           @ ''comment'' @ [dquote] @ '':[{'' @ [dquote] @ ''add'' @ [dquote]
                           @ '':{'' @ [dquote] @ ''body'' @ [dquote] @ '':''
                           @ QuoteJSONString c @ ''}}]}'')
               @ ''}'')"
  by (rule exI [of _ "transitionIssue_body transitionId comment"])
     (auto simp add: transitionIssue_def snd_void request_calls with_body_def
        transitionIssue_body_def JSON_stringify_def QuoteJSONString_literals
        split: option.splits)

theorem transition_body_update_only_with_comment_witness:
  "body (last (snd (transitionIssue demo_client ''DEMO-1'' ''31'' None offline []))) =
     Some (''{'' @ [dquote] @ ''transition'' @ [dquote] @ '':{'' @ [dquote] @ ''id'' @ [dquote]
           @ '':'' @ [dquote] @ ''31'' @ [dquote] @ ''}}'')
   \<and> body (last (snd (transitionIssue demo_client ''DEMO-1'' ''31'' (Some ''Done'') offline []))) =
     Some (''{'' @ [dquote] @ ''transition'' @ [dquote] @ '':{'' @ [dquote] @ ''id'' @ [dquote]
           @ '':'' @ [dquote] @ ''31'' @ [dquote] @ ''},'' @ [dquote] @ ''update'' @ [dquote]
           @ '':{'' @ [dquote] @ ''comment'' @ [dquote] @ '':[{'' @ [dquote] @ ''add''
           @ [dquote] @ '':{'' @ [dquote] @ ''body'' @ [dquote] @ '':'' @ [dquote] @ ''Done''
           @ [dquote] @ ''}}]}}'')"
  using
    transition_body_update_only_with_comment
      [of demo_client "''DEMO-1''" "''31''" None offline "[]"]
    transition_body_update_only_with_comment
      [of demo_client "''DEMO-1''" "''31''" "Some ''Done''" offline "[]"]
  by (clarsimp simp add: QuoteJSONString_def quote_char_def dquote_def backslash_def)

section \<open>Properties of the dispatcher\<close>

lemma parse_assign:
  "obj_get ps ''issueKey'' = JStr issueKey \<Longrightarrow>
   parse AssignIssueSchema (JObj ps) =
     (case obj_get ps ''assignee'' of
        JNull \<Rightarrow> Inr (issueKey, None)
      | JStr a \<Rightarrow> Inr (issueKey, Some a)
      | v \<Rightarrow> Inl (ZodError [invalid_type ''string'' v]))"
  by (simp add: parse_def AssignIssueSchema_def z_object_def z_string_def z_nullable_def
      split: jsval.splits)

text \<open>
  C2. A call of \<open>jira_assign_issue\<close> whose arguments hold an issue key and the assignee
  \<open>null\<close> makes one PUT to the assignee sub-resource of the issue, and the body is the
  serialization of \<open>{name: null}\<close>, the text \<open>{"name":null}\<close>: the property is there and
  its value is \<open>null\<close>.
\<close>

theorem unassign_sends_literal_null:
  assumes "obj_get ps ''issueKey'' = JStr issueKey" and "obj_get ps ''assignee'' = JNull"
  shows "snd (CallTool jiraClient ''jira_assign_issue'' (JObj ps) remote calls) =
           calls @ [fetch_call
                      (this_baseUrl jiraClient @ ''/rest/api/2/issue/'' @ issueKey @ ''/assignee'')
                      (Some ''PUT'') (this_headers jiraClient)
                      (JSON_stringify (JObj [(''name'', JNull)]))]
         \<and> JSON_stringify (JObj [(''name'', JNull)])
             = Some (''{'' @ [dquote] @ ''name'' @ [dquote] @ '':null}'')"
  using assms
  by (simp add: snd_CallTool switch_name_def jira_assign_issue_def bind_settle parse_assign
      snd_bind_await_return snd_void assignIssue_def request_calls with_body_def
      JSON_stringify_def QuoteJSONString_literals)

theorem unassign_sends_literal_null_witness:
  "obj_get [(''issueKey'', JStr ''DEMO-1''), (''assignee'', JNull)] ''issueKey'' = JStr ''DEMO-1''
   \<and> obj_get [(''issueKey'', JStr ''DEMO-1''), (''assignee'', JNull)] ''assignee'' = JNull
   \<and> snd (CallTool demo_client ''jira_assign_issue''
             (JObj [(''issueKey'', JStr ''DEMO-1''), (''assignee'', JNull)]) no_content []) =
       [fetch_call ''https://jira.example.com/rest/api/2/issue/DEMO-1/assignee'' (Some ''PUT'')
          [(''Authorization'', ''Bearer token''), (''Content-Type'', ''application/json''),
           (''Accept'', ''application/json'')]
          (Some (''{'' @ [dquote] @ ''name'' @ [dquote] @ '':null}''))]"
proof -
  have key: "obj_get [(''issueKey'', JStr ''DEMO-1''), (''assignee'', JNull)] ''issueKey''
      = JStr ''DEMO-1''"
    and assignee: "obj_get [(''issueKey'', JStr ''DEMO-1''), (''assignee'', JNull)] ''assignee''
      = JNull"
    by simp_all
  show ?thesis
    using key assignee
      unassign_sends_literal_null [OF key assignee, of demo_client no_content "[]"]
    by (simp add: demo_client_eq)
qed

lemma assign_reply:
  "obj_get ps ''issueKey'' = JStr issueKey \<Longrightarrow> obj_get ps ''assignee'' = JStr a \<Longrightarrow>
   fst (CallTool jiraClient ''jira_assign_issue'' (JObj ps) remote calls) =
     (case fst (request jiraClient (''/issue/'' @ issueKey @ ''/assignee'')
                  (with_body ''PUT'' (JSON_stringify (JObj [(''name'', JStr a)]))) remote calls) of
        Inl e \<Rightarrow>
          Inl (McpError InternalError (''Error executing jira_assign_issue: '' @ message e))
      | Inr v \<Rightarrow>
          Inr (text_reply (if a \<noteq> [] then ''Issue '' @ issueKey @ '' assigned to '' @ a
                           else ''Issue '' @ issueKey @ '' unassigned'')))"
  by (simp add: fst_CallTool switch_name_def jira_assign_issue_def bind_settle parse_assign
      fst_bind_await_return fst_void assignIssue_def split: sum.splits)

text \<open>
  C10. A call of \<open>jira_assign_issue\<close> whose assignee is the empty string passes the schema
  and makes the PUT with the body \<open>{"name":""}\<close>; when that request succeeds the reply is
  \<open>Issue KEY unassigned\<close>, and no other reply is possible. With a non-empty assignee the
  reply names the assignee: the wording follows the truthiness of the value.
\<close>

theorem empty_assignee_replies_unassigned:
  assumes "obj_get ps ''issueKey'' = JStr issueKey" and "obj_get ps ''assignee'' = JStr []"
  shows "\<exists>call.
           snd (CallTool jiraClient ''jira_assign_issue'' (JObj ps) remote calls) = calls @ [call]
         \<and> call = fetch_call
                    (this_baseUrl jiraClient @ ''/rest/api/2/issue/'' @ issueKey @ ''/assignee'')
                    (Some ''PUT'') (this_headers jiraClient)
                    (JSON_stringify (JObj [(''name'', JStr [])]))
         \<and> body call = Some (''{'' @ [dquote] @ ''name'' @ [dquote] @ '':'' @ [dquote, dquote] @ ''}'')
         \<and> (\<forall>response. remote (calls @ [call]) = Resolved response \<and> ok response
                \<and> (status response = 204 \<or> (\<exists>v. response_json response = Inr v)) \<longrightarrow>
               fst (CallTool jiraClient ''jira_assign_issue'' (JObj ps) remote calls)
                 = Inr (text_reply (''Issue '' @ issueKey @ '' unassigned'')))
         \<and> (\<forall>reply. fst (CallTool jiraClient ''jira_assign_issue'' (JObj ps) remote calls)
                        = Inr reply \<longrightarrow>
               reply = text_reply (''Issue '' @ issueKey @ '' unassigned''))
         \<and> (\<forall>ps' a reply. obj_get ps' ''issueKey'' = JStr issueKey
                \<and> obj_get ps' ''assignee'' = JStr a \<and> a \<noteq> []
                \<and> fst (CallTool jiraClient ''jira_assign_issue'' (JObj ps') remote calls)
                    = Inr reply \<longrightarrow>
               reply = text_reply (''Issue '' @ issueKey @ '' assigned to '' @ a))"
proof -
  let ?call = "fetch_call
                 (this_baseUrl jiraClient @ ''/rest/api/2/issue/'' @ issueKey @ ''/assignee'')
                 (Some ''PUT'') (this_headers jiraClient)
                 (JSON_stringify (JObj [(''name'', JStr [])]))"
  have made: "snd (CallTool jiraClient ''jira_assign_issue'' (JObj ps) remote calls)
      = calls @ [?call]"
    using assms
    by (simp add: snd_CallTool switch_name_def jira_assign_issue_def bind_settle parse_assign
        snd_bind_await_return snd_void assignIssue_def request_calls with_body_def)
  have literal: "body ?call
      = Some (''{'' @ [dquote] @ ''name'' @ [dquote] @ '':'' @ [dquote, dquote] @ ''}'')"
    by (simp add: JSON_stringify_def QuoteJSONString_literals)
  have accepted: "\<forall>response. remote (calls @ [?call]) = Resolved response \<and> ok response
        \<and> (status response = 204 \<or> (\<exists>v. response_json response = Inr v)) \<longrightarrow>
      fst (CallTool jiraClient ''jira_assign_issue'' (JObj ps) remote calls)
        = Inr (text_reply (''Issue '' @ issueKey @ '' unassigned''))"
    using assms by (auto simp add: assign_reply fst_request with_body_def)
  have only: "\<forall>reply. fst (CallTool jiraClient ''jira_assign_issue'' (JObj ps) remote calls)
        = Inr reply \<longrightarrow> reply = text_reply (''Issue '' @ issueKey @ '' unassigned'')"
    using assms by (simp add: assign_reply split: sum.splits)
  have named: "\<forall>ps' a reply. obj_get ps' ''issueKey'' = JStr issueKey
        \<and> obj_get ps' ''assignee'' = JStr a \<and> a \<noteq> []
        \<and> fst (CallTool jiraClient ''jira_assign_issue'' (JObj ps') remote calls) = Inr reply \<longrightarrow>
      reply = text_reply (''Issue '' @ issueKey @ '' assigned to '' @ a)"
    by (auto simp add: assign_reply split: sum.splits)
  from made literal accepted only named show ?thesis
    by (intro exI [of _ ?call] conjI refl)
qed

theorem empty_assignee_replies_unassigned_witness:
  "obj_get [(''issueKey'', JStr ''DEMO-1''), (''assignee'', JStr [])] ''issueKey'' = JStr ''DEMO-1''
   \<and> obj_get [(''issueKey'', JStr ''DEMO-1''), (''assignee'', JStr [])] ''assignee'' = JStr []
   \<and> CallTool demo_client ''jira_assign_issue''
        (JObj [(''issueKey'', JStr ''DEMO-1''), (''assignee'', JStr [])]) no_content [] =
       (Inr (text_reply ''Issue DEMO-1 unassigned''),
        [fetch_call ''https://jira.example.com/rest/api/2/issue/DEMO-1/assignee'' (Some ''PUT'')
           [(''Authorization'', ''Bearer token''), (''Content-Type'', ''application/json''),
            (''Accept'', ''application/json'')]
           (Some (''{'' @ [dquote] @ ''name'' @ [dquote] @ '':'' @ [dquote, dquote] @ ''}''))])"
proof -
  have key: "obj_get [(''issueKey'', JStr ''DEMO-1''), (''assignee'', JStr [])] ''issueKey''
      = JStr ''DEMO-1''"
    and assignee: "obj_get [(''issueKey'', JStr ''DEMO-1''), (''assignee'', JStr [])] ''assignee''
      = JStr []"
    by simp_all
  let ?args = "JObj [(''issueKey'', JStr ''DEMO-1''), (''assignee'', JStr [])]"
  from empty_assignee_replies_unassigned [OF key assignee, of demo_client no_content "[]"]
  obtain call where made: "snd (CallTool demo_client ''jira_assign_issue'' ?args no_content [])
        = [] @ [call]"
    and call: "call = fetch_call
        (this_baseUrl demo_client @ ''/rest/api/2/issue/'' @ ''DEMO-1'' @ ''/assignee'')
        (Some ''PUT'') (this_headers demo_client) (JSON_stringify (JObj [(''name'', JStr [])]))"
    and literal: "body call
        = Some (''{'' @ [dquote] @ ''name'' @ [dquote] @ '':'' @ [dquote, dquote] @ ''}'')"
    and accepted: "\<forall>response. no_content ([] @ [call]) = Resolved response \<and> ok response
          \<and> (status response = 204 \<or> (\<exists>v. response_json response = Inr v)) \<longrightarrow>
        fst (CallTool demo_client ''jira_assign_issue'' ?args no_content [])
          = Inr (text_reply (''Issue '' @ ''DEMO-1'' @ '' unassigned''))"
    by blast
  have "no_content ([] @ [call])
      = Resolved (Response 204 [] (Inl ''Unexpected end of JSON input''))"
    by (simp add: no_content_def)
  moreover have "ok (Response 204 [] (Inl ''Unexpected end of JSON input''))"
    by (simp add: ok_def)
  ultimately have reply: "fst (CallTool demo_client ''jira_assign_issue'' ?args no_content [])
      = Inr (text_reply (''Issue '' @ ''DEMO-1'' @ '' unassigned''))"
    using accepted by simp
  from call literal have "call
      = fetch_call ''https://jira.example.com/rest/api/2/issue/DEMO-1/assignee'' (Some ''PUT'')
          [(''Authorization'', ''Bearer token''), (''Content-Type'', ''application/json''),
           (''Accept'', ''application/json'')]
          (Some (''{'' @ [dquote] @ ''name'' @ [dquote] @ '':'' @ [dquote, dquote] @ ''}''))"
    by (simp add: demo_client_eq)
  with made reply key assignee show ?thesis
    by (simp add: prod_eq_iff)
qed

lemma parse_update_summary_only:
  "obj_get ps ''issueKey'' = JStr issueKey \<Longrightarrow> obj_get ps ''summary'' = JStr summary \<Longrightarrow>
   obj_get ps ''description'' = JUndefined \<Longrightarrow> obj_get ps ''priority'' = JUndefined \<Longrightarrow>
   obj_get ps ''assignee'' = JUndefined \<Longrightarrow> obj_get ps ''labels'' = JUndefined \<Longrightarrow>
   parse UpdateIssueSchema (JObj ps) = Inr (issueKey, Some summary, None, None, None, None)"
  by (simp add: parse_def UpdateIssueSchema_def z_object_def z_string_def z_optional_def)

lemma update_issue_fields_summary_only:
  "update_issue_fields (Some summary) None None None None =
     (if summary = [] then [] else [(''summary'', JStr summary)])"
  by (simp add: update_issue_fields_def object_literal_def and_string_def and_array_def)

text \<open>
  C3. A call of \<open>jira_update_issue\<close> whose arguments hold an issue key and a summary, and
  none of description, priority, assignee and labels, makes one PUT to the issue whose
  body is the serialization of \<open>{fields: F}\<close>, where \<open>F\<close> has no key other than
  \<open>summary\<close>: it is \<open>{summary: S}\<close>, or \<open>{}\<close> for an empty summary.
\<close>

theorem summary_only_update_payload:
  assumes "obj_get ps ''issueKey'' = JStr issueKey" and "obj_get ps ''summary'' = JStr summary"
    and "obj_get ps ''description'' = JUndefined" and "obj_get ps ''priority'' = JUndefined"
    and "obj_get ps ''assignee'' = JUndefined" and "obj_get ps ''labels'' = JUndefined"
  shows "\<exists>fields.
           snd (CallTool jiraClient ''jira_update_issue'' (JObj ps) remote calls) =
             calls @ [fetch_call (this_baseUrl jiraClient @ ''/rest/api/2/issue/'' @ issueKey)
                        (Some ''PUT'') (this_headers jiraClient)
                        (JSON_stringify (JObj [(''fields'', JObj fields)]))]
         \<and> fst ` set fields \<subseteq> {''summary''}
         \<and> fields = (if summary = [] then [] else [(''summary'', JStr summary)])
         \<and> JSON_stringify (JObj [(''fields'', JObj fields)]) =
             Some (''{'' @ [dquote] @ ''fields'' @ [dquote] @ '':''
                   @ (if summary = [] then ''{}''
                      else ''{'' @ [dquote] @ ''summary'' @ [dquote] @ '':''
                           @ QuoteJSONString summary @ ''}'')
                   @ ''}'')"
  using assms
  by (simp add: snd_CallTool switch_name_def jira_update_issue_def bind_settle
      parse_update_summary_only update_issue_fields_summary_only snd_bind_await_return snd_void
      updateIssue_def request_calls with_body_def JSON_stringify_def QuoteJSONString_literals)

theorem summary_only_update_payload_witness:
  "obj_get [(''issueKey'', JStr ''DEMO-1''), (''summary'', JStr ''New'')] ''issueKey''
     = JStr ''DEMO-1''
   \<and> obj_get [(''issueKey'', JStr ''DEMO-1''), (''summary'', JStr ''New'')] ''summary''
     = JStr ''New''
   \<and> obj_get [(''issueKey'', JStr ''DEMO-1''), (''summary'', JStr ''New'')] ''description''
     = JUndefined
   \<and> obj_get [(''issueKey'', JStr ''DEMO-1''), (''summary'', JStr ''New'')] ''priority''
     = JUndefined
   \<and> obj_get [(''issueKey'', JStr ''DEMO-1''), (''summary'', JStr ''New'')] ''assignee''
     = JUndefined
   \<and> obj_get [(''issueKey'', JStr ''DEMO-1''), (''summary'', JStr ''New'')] ''labels''
     = JUndefined
   \<and> snd (CallTool demo_client ''jira_update_issue''
             (JObj [(''issueKey'', JStr ''DEMO-1''), (''summary'', JStr ''New'')]) no_content []) =
       [fetch_call ''https://jira.example.com/rest/api/2/issue/DEMO-1'' (Some ''PUT'')
          [(''Authorization'', ''Bearer token''), (''Content-Type'', ''application/json''),
           (''Accept'', ''application/json'')]
          (Some (''{'' @ [dquote] @ ''fields'' @ [dquote] @ '':{'' @ [dquote] @ ''summary''
                 @ [dquote] @ '':'' @ [dquote] @ ''New'' @ [dquote] @ ''}}''))]"
proof -
  let ?ps = "[(''issueKey'', JStr ''DEMO-1''), (''summary'', JStr ''New'')]"
  have args: "obj_get ?ps ''issueKey'' = JStr ''DEMO-1''" "obj_get ?ps ''summary'' = JStr ''New''"
    "obj_get ?ps ''description'' = JUndefined" "obj_get ?ps ''priority'' = JUndefined"
    "obj_get ?ps ''assignee'' = JUndefined" "obj_get ?ps ''labels'' = JUndefined"
    by simp_all
  have quoted: "QuoteJSONString ''New'' = [dquote] @ ''New'' @ [dquote]"
    by (simp add: QuoteJSONString_def quote_char_def dquote_def backslash_def)
  show ?thesis
    using args summary_only_update_payload [OF args, of demo_client no_content "[]"]
    by (clarsimp simp add: demo_client_eq quoted)
qed

lemma parse_fails:
  "schema_issues schema args = Some issues \<Longrightarrow>
   bind (settle (parse schema args)) f remote calls = (Inl (ZodError issues), calls)"
  by (simp add: schema_issues_def bind_settle parse_def split: sum.splits)

lemmas handler_defs =
  jira_get_issue_def jira_search_issues_def jira_create_issue_def jira_update_issue_def
  jira_delete_issue_def jira_assign_issue_def jira_get_comments_def jira_add_comment_def
  jira_get_transitions_def jira_transition_issue_def jira_get_projects_def jira_get_project_def
  jira_search_users_def jira_get_current_user_def jira_link_issues_def jira_add_watcher_def
  jira_get_priorities_def jira_get_statuses_def jira_get_create_meta_def jira_get_edit_meta_def
  jira_get_project_versions_def jira_get_project_components_def jira_get_fields_def
  jira_get_field_options_def jira_get_issue_link_types_def jira_create_issue_advanced_def
  jira_update_issue_advanced_def

lemma switch_name_invalid:
  "input_schema_issues name args = Some issues \<Longrightarrow>
   switch_name jiraClient name args remote calls = (Inl (ZodError issues), calls)"
  unfolding input_schema_issues_def switch_name_def
  by (simp add: handler_defs parse_fails split: if_splits)

text \<open>
  C4. When the arguments of a tool call fail the input schema of the tool, with the issues
  \<open>issues\<close>, the handler throws one \<open>InvalidParams\<close> error whose message is
  \<open>Invalid parameters: \<close> followed by the messages of all the issues joined by \<open>", "\<close>,
  and the calls made to the server are the ones made before: the Remote Client is not
  invoked.
\<close>

theorem invalid_arguments_rejected_before_any_call:
  assumes "input_schema_issues name args = Some issues"
  shows "CallTool jiraClient name args remote calls =
           (Inl (McpError InvalidParams (''Invalid parameters: '' @ join '', '' issues)), calls)"
  by (simp add: CallTool_def switch_name_invalid [OF assms])

theorem invalid_arguments_rejected_before_any_call_witness:
  "input_schema_issues ''jira_get_issue'' (JObj [(''expand'', JStr ''changelog'')])
     = Some [''Required'', ''Expected array, received string'']
   \<and> CallTool demo_client ''jira_get_issue'' (JObj [(''expand'', JStr ''changelog'')]) offline [] =
       (Inl (McpError InvalidParams
               ''Invalid parameters: Required, Expected array, received string''), [])"
proof -
  have issues: "input_schema_issues ''jira_get_issue'' (JObj [(''expand'', JStr ''changelog'')])
      = Some [''Required'', ''Expected array, received string'']"
    by (simp add: input_schema_issues_def schema_issues_def GetIssueSchema_def z_object_def
        z_string_def z_optional_def z_array_def invalid_type_def)
  show ?thesis
    using issues
      invalid_arguments_rejected_before_any_call [OF issues, of demo_client offline "[]"]
    by simp
qed

lemma parse_no_mcp:
  "(\<And>a. fst (f a remote calls) \<noteq> Inl (Mcp e)) \<Longrightarrow>
   fst (bind (settle (parse schema args)) f remote calls) \<noteq> Inl (Mcp e)"
  by (simp add: bind_settle parse_def split: sum.splits)

lemma await_return_no_mcp:
  "fst (bind (await m) (\<lambda>a. return (g a)) remote calls) \<noteq> Inl (Mcp e)"
  by (simp add: fst_bind_await_return split: sum.splits)

text \<open>No case of the switch throws an \<open>McpError\<close>: each parses, awaits the client, replies.\<close>

lemma handlers_no_mcp:
  "fst (jira_get_issue jiraClient args remote calls) \<noteq> Inl (Mcp e)"
  "fst (jira_search_issues jiraClient args remote calls) \<noteq> Inl (Mcp e)"
  "fst (jira_create_issue jiraClient args remote calls) \<noteq> Inl (Mcp e)"
  "fst (jira_update_issue jiraClient args remote calls) \<noteq> Inl (Mcp e)"
  "fst (jira_delete_issue jiraClient args remote calls) \<noteq> Inl (Mcp e)"
  "fst (jira_assign_issue jiraClient args remote calls) \<noteq> Inl (Mcp e)"
  "fst (jira_get_comments jiraClient args remote calls) \<noteq> Inl (Mcp e)"
  "fst (jira_add_comment jiraClient args remote calls) \<noteq> Inl (Mcp e)"
  "fst (jira_get_transitions jiraClient args remote calls) \<noteq> Inl (Mcp e)"
  "fst (jira_transition_issue jiraClient args remote calls) \<noteq> Inl (Mcp e)"
  "fst (jira_get_projects jiraClient args remote calls) \<noteq> Inl (Mcp e)"
  "fst (jira_get_project jiraClient args remote calls) \<noteq> Inl (Mcp e)"
  "fst (jira_search_users jiraClient args remote calls) \<noteq> Inl (Mcp e)"
  "fst (jira_get_current_user jiraClient args remote calls) \<noteq> Inl (Mcp e)"
  "fst (jira_link_issues jiraClient args remote calls) \<noteq> Inl (Mcp e)"
  "fst (jira_add_watcher jiraClient args remote calls) \<noteq> Inl (Mcp e)"
  "fst (jira_get_priorities jiraClient args remote calls) \<noteq> Inl (Mcp e)"
  "fst (jira_get_statuses jiraClient args remote calls) \<noteq> Inl (Mcp e)"
  "fst (jira_get_create_meta jiraClient args remote calls) \<noteq> Inl (Mcp e)"
  "fst (jira_get_edit_meta jiraClient args remote calls) \<noteq> Inl (Mcp e)"
  "fst (jira_get_project_versions jiraClient args remote calls) \<noteq> Inl (Mcp e)"
  "fst (jira_get_project_components jiraClient args remote calls) \<noteq> Inl (Mcp e)"
  "fst (jira_get_fields jiraClient args remote calls) \<noteq> Inl (Mcp e)"
  "fst (jira_get_field_options jiraClient args remote calls) \<noteq> Inl (Mcp e)"
  "fst (jira_get_issue_link_types jiraClient args remote calls) \<noteq> Inl (Mcp e)"
  "fst (jira_create_issue_advanced jiraClient args remote calls) \<noteq> Inl (Mcp e)"
  "fst (jira_update_issue_advanced jiraClient args remote calls) \<noteq> Inl (Mcp e)"
  unfolding handler_defs Let_def
  by (intro parse_no_mcp await_return_no_mcp | simp only: split_beta)+

lemma switch_name_no_mcp:
  "name \<in> set tool_names \<Longrightarrow>
   fst (switch_name jiraClient name args remote calls) \<noteq> Inl (Mcp e)"
  unfolding switch_name_def tool_names_def
  by (auto simp add: handlers_no_mcp)

lemma registered_tool_error:
  "name \<in> set tool_names \<Longrightarrow>
   fst (CallTool jiraClient name args remote calls) \<noteq> Inl (McpError MethodNotFound m)"
  using switch_name_no_mcp [of name jiraClient args remote calls "McpError MethodNotFound m"]
  by (cases "fst (switch_name jiraClient name args remote calls)")
     (auto simp add: fst_CallTool elim: catch_error.elims)

text \<open>
  C5. A tool call whose name is not a registered tool name throws the \<open>MethodNotFound\<close>
  error \<open>Unknown tool: NAME\<close> and makes no call to the server. The code
  \<open>MethodNotFound\<close> is not the code of a validation error (\<open>InvalidParams\<close>) or of a remote
  or internal failure (\<open>InternalError\<close>), and no call of a registered tool throws it.
\<close>

theorem unknown_tool_is_method_not_found:
  assumes "name \<notin> set tool_names"
  shows "CallTool jiraClient name args remote calls =
           (Inl (McpError MethodNotFound (''Unknown tool: '' @ name)), calls)
         \<and> MethodNotFound \<noteq> InvalidParams \<and> MethodNotFound \<noteq> InternalError
         \<and> (\<forall>registered\<in>set tool_names. \<forall>args' remote' calls' m.
               fst (CallTool jiraClient registered args' remote' calls')
                 \<noteq> Inl (McpError MethodNotFound m))"
  using assms
  by (simp add: registered_tool_error)
     (simp add: tool_names_def CallTool_def switch_name_def throw_def)

theorem unknown_tool_is_method_not_found_witness:
  "''jira_drop_project'' \<notin> set tool_names
   \<and> CallTool demo_client ''jira_drop_project'' (JObj []) offline [] =
       (Inl (McpError MethodNotFound ''Unknown tool: jira_drop_project''), [])"
proof -
  have unknown: "''jira_drop_project'' \<notin> set tool_names"
    by (simp add: tool_names_def)
  show ?thesis
    using unknown
      unknown_tool_is_method_not_found [OF unknown, of demo_client "JObj []" offline "[]"]
    by simp
qed

section \<open>Properties of resource listing\<close>

text \<open>
  C6. When the project lookup fails, or it succeeds and the lookup of the current user
  fails, listing the resources does not throw: it returns the list made of the one static
  configuration resource.
\<close>

theorem resource_listing_degrades_to_static:
  assumes "(\<exists>e. fst (getProjects jiraClient remote calls) = Inl e)
           \<or> (\<exists>projects calls' e.
                 getProjects jiraClient remote calls = (Inr projects, calls')
                 \<and> fst (getCurrentUser jiraClient remote calls') = Inl e)"
  shows "fst (ListResources jiraClient remote calls) =
           Inr [Resource ''jira://config'' ''Jira Configuration''
                  ''Current Jira server configuration'' ''application/json'']"
  using assms
  by (auto simp add: ListResources_def try_catch_eq bind_eq return_def static_resources_def
      split: prod.splits sum.splits)

theorem resource_listing_degrades_to_static_witness:
  "fst (getProjects demo_client offline []) = Inl (TypeError ''fetch failed'')
   \<and> fst (ListResources demo_client offline []) =
       Inr [Resource ''jira://config'' ''Jira Configuration''
              ''Current Jira server configuration'' ''application/json'']
   \<and> getProjects demo_client projects_only [] =
       (Inr (JArr []),
        [fetch_call ''https://jira.example.com/rest/api/2/project'' None
           (this_headers demo_client) None])
   \<and> fst (getCurrentUser demo_client projects_only
             [fetch_call ''https://jira.example.com/rest/api/2/project'' None
                (this_headers demo_client) None])
       = Inl (Error ''Jira API error (401): Unauthorized'')
   \<and> fst (ListResources demo_client projects_only []) =
       Inr [Resource ''jira://config'' ''Jira Configuration''
              ''Current Jira server configuration'' ''application/json'']"
proof -
  let ?first = "fetch_call ''https://jira.example.com/rest/api/2/project'' None
                  (this_headers demo_client) None"
  have down: "fst (getProjects demo_client offline []) = Inl (TypeError ''fetch failed'')"
    by (simp add: getProjects_def request_get_def request_def offline_def Let_def)
  have projects: "getProjects demo_client projects_only [] = (Inr (JArr []), [?first])"
    by (simp add: getProjects_def request_get_def request_def no_init_def projects_only_def
        json_response_def ok_def Let_def demo_client_eq)
  have "show_nat 401 = ''401''"
    by code_simp
  then have user: "fst (getCurrentUser demo_client projects_only [?first])
      = Inl (Error ''Jira API error (401): Unauthorized'')"
    by (simp add: getCurrentUser_def request_get_def request_def no_init_def projects_only_def
        ok_def Let_def demo_client_eq)
  from down have "fst (ListResources demo_client offline []) =
       Inr [Resource ''jira://config'' ''Jira Configuration''
              ''Current Jira server configuration'' ''application/json'']"
    by (intro resource_listing_degrades_to_static disjI1 exI)
  moreover from projects user have "fst (ListResources demo_client projects_only []) =
       Inr [Resource ''jira://config'' ''Jira Configuration''
              ''Current Jira server configuration'' ''application/json'']"
    by (intro resource_listing_degrades_to_static disjI2 exI conjI)
  ultimately show ?thesis
    using down projects user by simp
qed

section \<open>Properties of the field options\<close>

lemma filter_throwing_none:
  "filter_throwing p xs = Inr ys \<Longrightarrow> \<forall>x\<in>set xs. p x \<noteq> Inr True \<Longrightarrow> ys = []"
proof (induction xs arbitrary: ys)
  case Nil
  then show ?case by simp
next
  case (Cons x xs)
  then show ?case by (auto split: sum.splits if_splits)
qed

text \<open>
  C7, as stated, fails for the empty issue type name: \<open>getCreateMeta\<close> then skips the filter
  and keeps every issue type. On the example server no issue type is named like the empty
  string, \<open>getCreateMeta\<close> succeeds, and \<open>getFieldOptions\<close> returns the allowed values of the
  field of the first issue type, which is not the empty list.
\<close>

theorem field_options_empty_name_counterexample:
  "fst (getCreateMeta demo_client ''DEMO'' (Some []) demo_remote []) =
      Inr (CreateMeta ''DEMO''
            [IssueTypeMeta (JStr ''1'') (JStr ''Bug'')
               [FieldMeta (JStr ''priority'') (JStr ''Priority'') (JBool False) True
                  (JArr [demo_high])]])
   \<and> fst (getCreateMetaIssueTypes demo_client ''DEMO'' demo_remote [])
       = Inr (JObj [(''values'', JArr demo_issue_types)])
   \<and> filter (\<lambda>t. name_matches [] t = Inr True) demo_issue_types = []
   \<and> fst (getFieldOptions demo_client ''DEMO'' [] ''priority'' demo_remote [])
       = Inr (JArr [demo_high])
   \<and> JArr [demo_high] \<noteq> JArr []"
  by code_simp

text \<open>
  C7, amended. For a non-empty issue type name: when \<open>getCreateMeta\<close> succeeds and none of
  the issue types the server listed matches the name case-insensitively, \<open>getCreateMeta\<close>
  returned no issue type and \<open>getFieldOptions\<close> returns the empty list, not an error.
\<close>

theorem field_options_empty_when_no_type_matches:
  assumes nonempty: "issueTypeName \<noteq> []"
    and succeeds:
      "getCreateMeta this projectKey (Some issueTypeName) remote calls = (Inr meta, calls')"
    and listed:
      "getCreateMetaIssueTypes this projectKey remote calls = (Inr issueTypesResult, calls1)"
    and "values": "js_prop issueTypesResult ''values'' = Inr (JArr ts)"
    and none: "\<forall>t\<in>set ts. name_matches issueTypeName t \<noteq> Inr True"
  shows "getFieldOptions this projectKey issueTypeName fieldKey remote calls
           = (Inr (JArr []), calls')
         \<and> meta = CreateMeta projectKey []"
proof -
  obtain matching where m: "filter_throwing (name_matches issueTypeName) ts = Inr matching"
    using succeeds nonempty listed "values"
    by (cases "filter_throwing (name_matches issueTypeName) ts")
       (auto simp add: getCreateMeta_def bind_eq settle_def)
  have "matching = []"
    using filter_throwing_none [OF m none] .
  with m succeeds nonempty listed "values" have meta: "meta = CreateMeta projectKey []"
    by (auto simp add: getCreateMeta_def bind_eq settle_def return_def)
  show ?thesis
    using succeeds meta by (simp add: getFieldOptions_def bind_eq return_def)
qed

theorem field_options_empty_when_no_type_matches_witness:
  "''Story'' \<noteq> []
   \<and> getCreateMeta demo_client ''DEMO'' (Some ''Story'') demo_remote [] =
       (Inr (CreateMeta ''DEMO'' []),
        [fetch_call ''https://jira.example.com/rest/api/2/issue/createmeta/DEMO/issuetypes''
           None (this_headers demo_client) None])
   \<and> getCreateMetaIssueTypes demo_client ''DEMO'' demo_remote [] =
       (Inr (JObj [(''values'', JArr demo_issue_types)]),
        [fetch_call ''https://jira.example.com/rest/api/2/issue/createmeta/DEMO/issuetypes''
           None (this_headers demo_client) None])
   \<and> js_prop (JObj [(''values'', JArr demo_issue_types)]) ''values'' = Inr (JArr demo_issue_types)
   \<and> filter (\<lambda>t. name_matches ''Story'' t = Inr True) demo_issue_types = []
   \<and> getFieldOptions demo_client ''DEMO'' ''Story'' ''priority'' demo_remote [] =
       (Inr (JArr []),
        [fetch_call ''https://jira.example.com/rest/api/2/issue/createmeta/DEMO/issuetypes''
           None (this_headers demo_client) None])"
proof -
  let ?calls = "[fetch_call
                   ''https://jira.example.com/rest/api/2/issue/createmeta/DEMO/issuetypes''
                   None (this_headers demo_client) None]"
  have nonempty: "''Story'' \<noteq> []"
    by simp
  have succeeds: "getCreateMeta demo_client ''DEMO'' (Some ''Story'') demo_remote []
      = (Inr (CreateMeta ''DEMO'' []), ?calls)"
    by code_simp
  have listed: "getCreateMetaIssueTypes demo_client ''DEMO'' demo_remote []
      = (Inr (JObj [(''values'', JArr demo_issue_types)]), ?calls)"
    by code_simp
  have "values": "js_prop (JObj [(''values'', JArr demo_issue_types)]) ''values''
      = Inr (JArr demo_issue_types)"
    by simp
  have none: "\<forall>t\<in>set demo_issue_types. name_matches ''Story'' t \<noteq> Inr True"
    by code_simp
  have no_match: "filter (\<lambda>t. name_matches ''Story'' t = Inr True) demo_issue_types = []"
    by code_simp
  show ?thesis
    using nonempty succeeds listed "values" no_match
      field_options_empty_when_no_type_matches
        [OF nonempty succeeds listed "values" none, of "''priority''"]
    by simp
qed

section \<open>Properties of the field maps of the advanced tools\<close>

lemma obj_get_obj_set: "obj_get (obj_set ps k v) k' = (if k' = k then v else obj_get ps k')"
  by (induction ps) auto

lemma obj_get_member: "distinct (map fst c) \<Longrightarrow> (k, v) \<in> set c \<Longrightarrow> obj_get c k = v"
  by (induction c) (auto simp add: rev_image_eqI)

text \<open>A key of the source that is not \<open>__proto__\<close> ends with the source's value.\<close>

lemma obj_get_Object_assign:
  "''__proto__'' \<notin> fst ` set c \<Longrightarrow> distinct (map fst c) \<Longrightarrow>
   obj_get (Object_assign target c) k =
     (if k \<in> fst ` set c then obj_get c k else obj_get target k)"
proof (induction c arbitrary: target)
  case Nil
  then show ?case by simp
next
  case (Cons p c)
  obtain k' v' where p: "p = (k', v')"
    by (cases p)
  from Cons.prems p have fresh: "k' \<notin> fst ` set c" and proto: "k' \<noteq> ''__proto__''"
    by auto
  from Cons.prems have "''__proto__'' \<notin> fst ` set c" and "distinct (map fst c)"
    by auto
  then have "obj_get (Object_assign (obj_set target k' v') c) k =
      (if k \<in> fst ` set c then obj_get c k else obj_get (obj_set target k' v') k)"
    by (rule Cons.IH)
  with p fresh proto show ?case
    by (auto simp add: obj_get_obj_set)
qed

lemma obj_get_Object_assign_other:
  "k \<notin> fst ` set c \<Longrightarrow> obj_get (Object_assign target c) k = obj_get target k"
  by (induction c arbitrary: target) (auto simp add: obj_get_obj_set)

lemma obj_set_fresh: "k \<notin> fst ` set ps \<Longrightarrow> obj_set ps k v = ps @ [(k, v)]"
  by (induction ps) auto

lemma if_string_fresh:
  "k \<notin> fst ` set fields \<Longrightarrow>
   if_string x k f fields = fields @ and_string x (\<lambda>s. [(k, f s)])"
  by (simp add: if_string_def and_string_def obj_set_fresh split: option.splits)

lemma if_array_fresh:
  "k \<notin> fst ` set fields \<Longrightarrow>
   if_array x k f fields = fields @ and_array x (\<lambda>xs. [(k, f xs)])"
  by (simp add: if_array_def and_array_def obj_set_fresh split: option.splits)

lemma and_string_keys: "k' \<noteq> k \<Longrightarrow> k' \<notin> fst ` set (and_string x (\<lambda>s. [(k, f s)]))"
  by (auto simp add: and_string_def split: option.splits)

lemma and_array_keys: "k' \<noteq> k \<Longrightarrow> k' \<notin> fst ` set (and_array x (\<lambda>xs. [(k, f xs)]))"
  by (auto simp add: and_array_def split: option.splits)

text \<open>
  The named fields as one list: the properties the literal sets, then one property for
  each truthy scalar and each supplied list, in the order of the assignments.
\<close>

lemma create_issue_advanced_named_eq:
  "create_issue_advanced_named projectKey summary issueType description priority assignee
       reporter labels components fixVersions affectsVersions =
     [(''project'', JObj [(''key'', JStr projectKey)]),
      (''summary'', JStr summary),
      (''issuetype'', JObj [(''name'', JStr issueType)])]
     @ and_string description (\<lambda>s. [(''description'', JStr s)])
     @ and_string priority (\<lambda>s. [(''priority'', name_ref s)])
     @ and_string assignee (\<lambda>s. [(''assignee'', name_ref s)])
     @ and_string reporter (\<lambda>s. [(''reporter'', name_ref s)])
     @ and_array labels (\<lambda>xs. [(''labels'', strings xs)])
     @ and_array components (\<lambda>xs. [(''components'', name_refs xs)])
     @ and_array fixVersions (\<lambda>xs. [(''fixVersions'', name_refs xs)])
     @ and_array affectsVersions (\<lambda>xs. [(''versions'', name_refs xs)])"
  by (simp add: create_issue_advanced_named_def Let_def if_string_fresh if_array_fresh
      and_string_keys and_array_keys image_Un)

lemma update_issue_advanced_named_eq:
  "update_issue_advanced_named summary description priority assignee labels components
       fixVersions affectsVersions =
     and_string summary (\<lambda>s. [(''summary'', JStr s)])
     @ and_string description (\<lambda>s. [(''description'', JStr s)])
     @ and_string priority (\<lambda>s. [(''priority'', name_ref s)])
     @ and_string assignee (\<lambda>s. [(''assignee'', name_ref s)])
     @ and_array labels (\<lambda>xs. [(''labels'', strings xs)])
     @ and_array components (\<lambda>xs. [(''components'', name_refs xs)])
     @ and_array fixVersions (\<lambda>xs. [(''fixVersions'', name_refs xs)])
     @ and_array affectsVersions (\<lambda>xs. [(''versions'', name_refs xs)])"
  by (simp add: update_issue_advanced_named_def Let_def if_string_fresh if_array_fresh
      and_string_keys and_array_keys image_Un)

lemma z_pair_Inr: "z_pair a b = Inr (x, y) \<longleftrightarrow> a = Inr x \<and> b = Inr y"
  by (cases a; cases b) auto

lemma z_optional_record:
  "z_optional z_record_unknown v = Inr (Some c) \<Longrightarrow> ''__proto__'' \<notin> fst ` set c"
  by (auto simp add: z_optional_def z_record_unknown_def split: if_splits sum.splits jsval.splits)

lemma parse_Inr: "parse schema v = Inr a \<longleftrightarrow> schema v = Inr a"
  by (simp add: parse_def split: sum.splits)

lemma z_object_Inr:
  "z_object shape v = Inr a \<Longrightarrow> \<exists>ps. v = JObj ps \<and> shape (obj_get ps) = Inr a"
  by (cases v) (simp_all add: z_object_def)

lemma create_advanced_custom_fields:
  "parse CreateIssueAdvancedSchema args =
     Inr (projectKey, summary, issueType, description, priority, assignee, reporter, labels,
          components, fixVersions, affectsVersions, Some c) \<Longrightarrow>
   ''__proto__'' \<notin> fst ` set c"
  unfolding parse_Inr CreateIssueAdvancedSchema_def
  by (drule z_object_Inr) (auto simp add: z_pair_Inr dest: z_optional_record)

lemma update_advanced_custom_fields:
  "parse UpdateIssueAdvancedSchema args =
     Inr (issueKey, summary, description, priority, assignee, labels,
          components, fixVersions, affectsVersions, Some c) \<Longrightarrow>
   ''__proto__'' \<notin> fst ` set c"
  unfolding parse_Inr UpdateIssueAdvancedSchema_def
  by (drule z_object_Inr) (auto simp add: z_pair_Inr dest: z_optional_record)

lemma overlay:
  "''__proto__'' \<notin> fst ` set c \<Longrightarrow> distinct (map fst c) \<Longrightarrow> (k, v) \<in> set c \<Longrightarrow>
   obj_get (merge_custom_fields named (Some c)) k = v"
  by (simp add: merge_custom_fields_def obj_get_Object_assign obj_get_member rev_image_eqI)

lemma no_overlay:
  "\<forall>c. customFields = Some c \<longrightarrow> k \<notin> fst ` set c \<Longrightarrow>
   obj_get (merge_custom_fields named customFields) k = obj_get named k"
  by (cases customFields) (simp_all add: merge_custom_fields_def obj_get_Object_assign_other)

text \<open>
  C1. For a call of \<open>jira_create_issue_advanced\<close> and a call of \<open>jira_update_issue_advanced\<close>
  whose arguments pass the schema, the field map sent to the server (\<open>fields\<close> in the body
  of the POST, respectively the PUT) is built in three steps. The named map holds the
  properties of the literal, then each scalar that is present (and not empty) and each
  name list that is present, the lists \<open>components\<close>, \<open>fixVersions\<close> and \<open>affectsVersions\<close>
  as lists of \<open>{name}\<close> objects, the last under the key \<open>versions\<close>. The custom fields are
  then assigned over it. So every key of the custom fields holds the custom value in the
  map that is sent, whether or not a named parameter had set it, and a key that the custom
  fields lack keeps its named value.
\<close>

theorem custom_fields_overlay_wins:
  assumes create:
      "parse CreateIssueAdvancedSchema args =
         Inr (projectKey, summary, issueType, description, priority, assignee, reporter, labels,
              components, fixVersions, affectsVersions, customFields)"
    and update:
      "parse UpdateIssueAdvancedSchema args' =
         Inr (issueKey, summary', description', priority', assignee', labels', components',
              fixVersions', affectsVersions', customFields')"
  shows "\<exists>named fields named' fields'.
      snd (CallTool jiraClient ''jira_create_issue_advanced'' args remote calls) =
        calls @ [fetch_call (this_baseUrl jiraClient @ ''/rest/api/2/issue'') (Some ''POST'')
                   (this_headers jiraClient) (JSON_stringify (JObj [(''fields'', JObj fields)]))]
    \<and> snd (CallTool jiraClient ''jira_update_issue_advanced'' args' remote calls) =
        calls @ [fetch_call (this_baseUrl jiraClient @ ''/rest/api/2/issue/'' @ issueKey)
                   (Some ''PUT'') (this_headers jiraClient)
                   (JSON_stringify (JObj [(''fields'', JObj fields')]))]
    \<and> named =
        [(''project'', JObj [(''key'', JStr projectKey)]),
         (''summary'', JStr summary),
         (''issuetype'', JObj [(''name'', JStr issueType)])]
        @ and_string description (\<lambda>s. [(''description'', JStr s)])
        @ and_string priority (\<lambda>s. [(''priority'', JObj [(''name'', JStr s)])])
        @ and_string assignee (\<lambda>s. [(''assignee'', JObj [(''name'', JStr s)])])
        @ and_string reporter (\<lambda>s. [(''reporter'', JObj [(''name'', JStr s)])])
        @ and_array labels (\<lambda>xs. [(''labels'', JArr (map JStr xs))])
        @ and_array components
            (\<lambda>xs. [(''components'', JArr (map (\<lambda>n. JObj [(''name'', JStr n)]) xs))])
        @ and_array fixVersions
            (\<lambda>xs. [(''fixVersions'', JArr (map (\<lambda>n. JObj [(''name'', JStr n)]) xs))])
        @ and_array affectsVersions
            (\<lambda>xs. [(''versions'', JArr (map (\<lambda>n. JObj [(''name'', JStr n)]) xs))])
    \<and> named' =
        and_string summary' (\<lambda>s. [(''summary'', JStr s)])
        @ and_string description' (\<lambda>s. [(''description'', JStr s)])
        @ and_string priority' (\<lambda>s. [(''priority'', JObj [(''name'', JStr s)])])
        @ and_string assignee' (\<lambda>s. [(''assignee'', JObj [(''name'', JStr s)])])
        @ and_array labels' (\<lambda>xs. [(''labels'', JArr (map JStr xs))])
        @ and_array components'
            (\<lambda>xs. [(''components'', JArr (map (\<lambda>n. JObj [(''name'', JStr n)]) xs))])
        @ and_array fixVersions'
            (\<lambda>xs. [(''fixVersions'', JArr (map (\<lambda>n. JObj [(''name'', JStr n)]) xs))])
        @ and_array affectsVersions'
            (\<lambda>xs. [(''versions'', JArr (map (\<lambda>n. JObj [(''name'', JStr n)]) xs))])
    \<and> fields = (case customFields of None \<Rightarrow> named | Some c \<Rightarrow> Object_assign named c)
    \<and> fields' = (case customFields' of None \<Rightarrow> named' | Some c \<Rightarrow> Object_assign named' c)
    \<and> (\<forall>c k v. customFields = Some c \<and> distinct (map fst c) \<and> (k, v) \<in> set c \<longrightarrow>
          obj_get fields k = v)
    \<and> (\<forall>c k v. customFields' = Some c \<and> distinct (map fst c) \<and> (k, v) \<in> set c \<longrightarrow>
          obj_get fields' k = v)
    \<and> (\<forall>k. (\<forall>c. customFields = Some c \<longrightarrow> k \<notin> fst ` set c) \<longrightarrow>
          obj_get fields k = obj_get named k)
    \<and> (\<forall>k. (\<forall>c. customFields' = Some c \<longrightarrow> k \<notin> fst ` set c) \<longrightarrow>
          obj_get fields' k = obj_get named' k)"
proof -
  let ?named = "create_issue_advanced_named projectKey summary issueType description priority
                  assignee reporter labels components fixVersions affectsVersions"
  let ?named' = "update_issue_advanced_named summary' description' priority' assignee' labels'
                   components' fixVersions' affectsVersions'"
  let ?fields = "merge_custom_fields ?named customFields"
  let ?fields' = "merge_custom_fields ?named' customFields'"
  have call: "snd (CallTool jiraClient ''jira_create_issue_advanced'' args remote calls) =
        calls @ [fetch_call (this_baseUrl jiraClient @ ''/rest/api/2/issue'') (Some ''POST'')
                   (this_headers jiraClient)
                   (JSON_stringify (JObj [(''fields'', JObj ?fields)]))]"
    by (simp add: snd_CallTool switch_name_def jira_create_issue_advanced_def bind_settle create
        Let_def snd_bind_await_return createIssueRaw_def request_calls with_body_def)
  have call': "snd (CallTool jiraClient ''jira_update_issue_advanced'' args' remote calls) =
        calls @ [fetch_call (this_baseUrl jiraClient @ ''/rest/api/2/issue/'' @ issueKey)
                   (Some ''PUT'') (this_headers jiraClient)
                   (JSON_stringify (JObj [(''fields'', JObj ?fields')]))]"
    by (simp add: snd_CallTool switch_name_def jira_update_issue_advanced_def bind_settle update
        Let_def snd_bind_await_return updateIssueRaw_def snd_void request_calls with_body_def)
  have named: "?named =
        [(''project'', JObj [(''key'', JStr projectKey)]),
         (''summary'', JStr summary),
         (''issuetype'', JObj [(''name'', JStr issueType)])]
        @ and_string description (\<lambda>s. [(''description'', JStr s)])
        @ and_string priority (\<lambda>s. [(''priority'', JObj [(''name'', JStr s)])])
        @ and_string assignee (\<lambda>s. [(''assignee'', JObj [(''name'', JStr s)])])
        @ and_string reporter (\<lambda>s. [(''reporter'', JObj [(''name'', JStr s)])])
        @ and_array labels (\<lambda>xs. [(''labels'', JArr (map JStr xs))])
        @ and_array components
            (\<lambda>xs. [(''components'', JArr (map (\<lambda>n. JObj [(''name'', JStr n)]) xs))])
        @ and_array fixVersions
            (\<lambda>xs. [(''fixVersions'', JArr (map (\<lambda>n. JObj [(''name'', JStr n)]) xs))])
        @ and_array affectsVersions
            (\<lambda>xs. [(''versions'', JArr (map (\<lambda>n. JObj [(''name'', JStr n)]) xs))])"
    by (simp add: create_issue_advanced_named_eq name_ref_def [abs_def] name_ref_def
        name_refs_def strings_def)
  have named': "?named' =
        and_string summary' (\<lambda>s. [(''summary'', JStr s)])
        @ and_string description' (\<lambda>s. [(''description'', JStr s)])
        @ and_string priority' (\<lambda>s. [(''priority'', JObj [(''name'', JStr s)])])
        @ and_string assignee' (\<lambda>s. [(''assignee'', JObj [(''name'', JStr s)])])
        @ and_array labels' (\<lambda>xs. [(''labels'', JArr (map JStr xs))])
        @ and_array components'
            (\<lambda>xs. [(''components'', JArr (map (\<lambda>n. JObj [(''name'', JStr n)]) xs))])
        @ and_array fixVersions'
            (\<lambda>xs. [(''fixVersions'', JArr (map (\<lambda>n. JObj [(''name'', JStr n)]) xs))])
        @ and_array affectsVersions'
            (\<lambda>xs. [(''versions'', JArr (map (\<lambda>n. JObj [(''name'', JStr n)]) xs))])"
    by (simp add: update_issue_advanced_named_eq name_ref_def [abs_def] name_ref_def
        name_refs_def strings_def)
  have merged:
    "?fields = (case customFields of None \<Rightarrow> ?named | Some c \<Rightarrow> Object_assign ?named c)"
    and merged':
    "?fields' = (case customFields' of None \<Rightarrow> ?named' | Some c \<Rightarrow> Object_assign ?named' c)"
    by (simp_all add: merge_custom_fields_def)
  have wins: "\<forall>c k v. customFields = Some c \<and> distinct (map fst c) \<and> (k, v) \<in> set c \<longrightarrow>
      obj_get ?fields k = v"
    using create by (auto dest: create_advanced_custom_fields intro: overlay)
  have wins': "\<forall>c k v. customFields' = Some c \<and> distinct (map fst c) \<and> (k, v) \<in> set c \<longrightarrow>
      obj_get ?fields' k = v"
    using update by (auto dest: update_advanced_custom_fields intro: overlay)
  have rest: "\<forall>k. (\<forall>c. customFields = Some c \<longrightarrow> k \<notin> fst ` set c) \<longrightarrow>
      obj_get ?fields k = obj_get ?named k"
    and rest': "\<forall>k. (\<forall>c. customFields' = Some c \<longrightarrow> k \<notin> fst ` set c) \<longrightarrow>
      obj_get ?fields' k = obj_get ?named' k"
    by (simp_all add: no_overlay)
  from call call' named named' merged merged' wins wins' rest rest' show ?thesis
    by (intro exI [of _ ?named] exI [of _ ?fields] exI [of _ ?named'] exI [of _ ?fields'] conjI)
qed

theorem custom_fields_overlay_wins_witness:
  "parse CreateIssueAdvancedSchema
     (JObj [(''projectKey'', JStr ''DEMO''), (''summary'', JStr ''Crash''),
            (''issueType'', JStr ''Bug''), (''components'', JArr [JStr ''A'']),
            (''customFields'', JObj [(''components'', JArr [JObj [(''name'', JStr ''B'')]])])])
     = Inr (''DEMO'', ''Crash'', ''Bug'', None, None, None, None, None, Some [''A''], None, None,
            Some [(''components'', JArr [JObj [(''name'', JStr ''B'')]])])
   \<and> parse UpdateIssueAdvancedSchema
     (JObj [(''issueKey'', JStr ''DEMO-1''), (''components'', JArr [JStr ''A'']),
            (''customFields'', JObj [(''components'', JArr [JObj [(''name'', JStr ''B'')]])])])
     = Inr (''DEMO-1'', None, None, None, None, None, Some [''A''], None, None,
            Some [(''components'', JArr [JObj [(''name'', JStr ''B'')]])])
   \<and> (\<exists>fields fields'.
        snd (CallTool demo_client ''jira_create_issue_advanced''
               (JObj [(''projectKey'', JStr ''DEMO''), (''summary'', JStr ''Crash''),
                      (''issueType'', JStr ''Bug''), (''components'', JArr [JStr ''A'']),
                      (''customFields'',
                       JObj [(''components'', JArr [JObj [(''name'', JStr ''B'')]])])])
               offline []) =
          [fetch_call ''https://jira.example.com/rest/api/2/issue'' (Some ''POST'')
             (this_headers demo_client) (JSON_stringify (JObj [(''fields'', JObj fields)]))]
      \<and> obj_get fields ''components'' = JArr [JObj [(''name'', JStr ''B'')]]
      \<and> snd (CallTool demo_client ''jira_update_issue_advanced''
               (JObj [(''issueKey'', JStr ''DEMO-1''), (''components'', JArr [JStr ''A'']),
                      (''customFields'',
                       JObj [(''components'', JArr [JObj [(''name'', JStr ''B'')]])])])
               offline []) =
          [fetch_call ''https://jira.example.com/rest/api/2/issue/DEMO-1'' (Some ''PUT'')
             (this_headers demo_client) (JSON_stringify (JObj [(''fields'', JObj fields')]))]
      \<and> obj_get fields' ''components'' = JArr [JObj [(''name'', JStr ''B'')]])"
proof -
  let ?custom = "[(''components'', JArr [JObj [(''name'', JStr ''B'')]])]"
  let ?args = "JObj [(''projectKey'', JStr ''DEMO''), (''summary'', JStr ''Crash''),
                     (''issueType'', JStr ''Bug''), (''components'', JArr [JStr ''A'']),
                     (''customFields'', JObj ?custom)]"
  let ?args' = "JObj [(''issueKey'', JStr ''DEMO-1''), (''components'', JArr [JStr ''A'']),
                      (''customFields'', JObj ?custom)]"
  have create: "parse CreateIssueAdvancedSchema ?args
      = Inr (''DEMO'', ''Crash'', ''Bug'', None, None, None, None, None, Some [''A''], None, None,
             Some ?custom)"
    by code_simp
  have update: "parse UpdateIssueAdvancedSchema ?args'
      = Inr (''DEMO-1'', None, None, None, None, None, Some [''A''], None, None, Some ?custom)"
    by code_simp
  from custom_fields_overlay_wins [OF create update, of demo_client offline "[]"]
  obtain fields fields' where
    "snd (CallTool demo_client ''jira_create_issue_advanced'' ?args offline []) =
       [] @ [fetch_call (this_baseUrl demo_client @ ''/rest/api/2/issue'') (Some ''POST'')
               (this_headers demo_client) (JSON_stringify (JObj [(''fields'', JObj fields)]))]"
    and "snd (CallTool demo_client ''jira_update_issue_advanced'' ?args' offline []) =
       [] @ [fetch_call (this_baseUrl demo_client @ ''/rest/api/2/issue/'' @ ''DEMO-1'')
               (Some ''PUT'') (this_headers demo_client)
               (JSON_stringify (JObj [(''fields'', JObj fields')]))]"
    and "\<forall>c k v. Some ?custom = Some c \<and> distinct (map fst c) \<and> (k, v) \<in> set c \<longrightarrow>
           obj_get fields k = v"
    and "\<forall>c k v. Some ?custom = Some c \<and> distinct (map fst c) \<and> (k, v) \<in> set c \<longrightarrow>
           obj_get fields' k = v"
    by blast
  then have "snd (CallTool demo_client ''jira_create_issue_advanced'' ?args offline []) =
       [fetch_call ''https://jira.example.com/rest/api/2/issue'' (Some ''POST'')
          (this_headers demo_client) (JSON_stringify (JObj [(''fields'', JObj fields)]))]
      \<and> obj_get fields ''components'' = JArr [JObj [(''name'', JStr ''B'')]]
      \<and> snd (CallTool demo_client ''jira_update_issue_advanced'' ?args' offline []) =
       [fetch_call ''https://jira.example.com/rest/api/2/issue/DEMO-1'' (Some ''PUT'')
          (this_headers demo_client) (JSON_stringify (JObj [(''fields'', JObj fields')]))]
      \<and> obj_get fields' ''components'' = JArr [JObj [(''name'', JStr ''B'')]]"
    by (simp add: demo_client_eq)
  with create update show ?thesis
    by blast
qed

end
